theory Spec2Isabelle
  imports Complex_Main "HOL-Library.Sublist" "HOL-Library.Log_Nat"
begin

section \<open>The attrition dashboard: data frames, sidebar, filters, tables\<close>

text \<open>
  The program is one script, \<^verbatim>\<open>app.py\<close>, that loads a table, reads three sidebar
  widgets, filters the table (lines 44-49) and derives tables and charts from the
  filtered table. The model follows the script top to bottom. A data frame is its
  column list (name and dtype, in order) and its rows; a cell is a missing value
  (NaN), a text or an integer. Every \<^verbatim>\<open>df['name']\<close> of the script is a lookup that
  raises KeyError on an absent column, so each such place is a branch returning
  \<open>Inl (KeyError name)\<close>.
\<close>

subsection \<open>Data\<close>

datatype cell = Null | Str string | Num int

datatype dtype = Number | Object

datatype error = KeyError string | ValueError | TypeError | StreamlitAPIException

record dataframe =
  schema :: "(string \<times> dtype) list"
  rows :: "cell list list"

text \<open>\<^verbatim>\<open>df.columns\<close>: the column names, in order.\<close>

definition columns :: "dataframe \<Rightarrow> string list" where
  "columns df = map fst (schema df)"

text \<open>
  The cell of row \<open>r\<close> in column \<open>c\<close>. A row shorter than the header has missing
  values in the columns it does not reach.
\<close>

definition value_at :: "dataframe \<Rightarrow> string \<Rightarrow> cell list \<Rightarrow> cell" where
  "value_at df c r = (case map_of (zip (columns df) r) c of Some v \<Rightarrow> v | None \<Rightarrow> Null)"

text \<open>\<^verbatim>\<open>df[c]\<close> as the list of the column's cells, row by row.\<close>

definition series :: "dataframe \<Rightarrow> string \<Rightarrow> cell list" where
  "series df c = map (value_at df c) (rows df)"

definition is_text :: "cell \<Rightarrow> bool" where
  "is_text v = (case v of Str s \<Rightarrow> True | _ \<Rightarrow> False)"

fun numbers :: "cell list \<Rightarrow> int list" where
  "numbers [] = []"
| "numbers (Num a # vs) = a # numbers vs"
| "numbers (v # vs) = numbers vs"

subsection \<open>Sidebar (lines 26-41)\<close>

text \<open>\<^verbatim>\<open>unique()\<close>: the distinct values in order of first appearance.\<close>

fun unique :: "'a list \<Rightarrow> 'a list" where
  "unique [] = []"
| "unique (x # xs) = x # unique (filter (\<lambda>y. y \<noteq> x) xs)"

text \<open>\<^verbatim>\<open>df[c].dropna().unique()\<close>\<close>

definition dropna_unique :: "dataframe \<Rightarrow> string \<Rightarrow> cell list" where
  "dropna_unique df c = unique (filter (\<lambda>v. v \<noteq> Null) (series df c))"

text \<open>
  The widgets. A widget the user has not touched returns its default (\<open>None\<close> is
  the untouched widget); otherwise it returns what the user picked. The multiselect
  of the page offers its options only; the model takes any pick, and a property that
  needs a pick among the options says so.
\<close>

definition multiselect :: "cell list \<Rightarrow> cell list \<Rightarrow> cell list option \<Rightarrow> cell list" where
  "multiselect opts dflt choice = (case choice of None \<Rightarrow> dflt | Some picked \<Rightarrow> picked)"

text \<open>
  The range slider refuses to be built (StreamlitAPIException) unless its lower bound is
  below its upper bound and both are integers that a float64 holds exactly, from
  \<open>-(2\<^sup>5\<^sup>3 - 1)\<close> to \<open>2\<^sup>5\<^sup>3 - 1\<close>; it refuses a value outside its bounds in the same
  way, and it returns a pair in order.
\<close>

definition slider ::
  "int \<Rightarrow> int \<Rightarrow> int \<times> int \<Rightarrow> (int \<times> int) option \<Rightarrow> error + (int \<times> int)" where
  "slider lo hi dflt choice =
     (if hi \<le> lo \<or> lo < - (2 ^ 53 - 1) \<or> 2 ^ 53 - 1 < hi then Inl StreamlitAPIException
      else (case choice of
              None \<Rightarrow> Inr dflt
            | Some picked \<Rightarrow>
                if lo \<le> fst picked \<and> fst picked \<le> snd picked \<and> snd picked \<le> hi
                then Inr picked else Inl StreamlitAPIException))"

record widgets =
  department_choice :: "cell list option"
  gender_choice :: "cell list option"
  age_choice :: "(int \<times> int) option"

text \<open>Lines 28-32 and 34-38, one function for both fields.\<close>

definition selected :: "string \<Rightarrow> dataframe \<Rightarrow> cell list option \<Rightarrow> cell list" where
  "selected c df choice =
     (if c \<in> set (columns df)
      then multiselect (dropna_unique df c) (dropna_unique df c) choice
      else [])"

definition selected_departments :: "dataframe \<Rightarrow> cell list option \<Rightarrow> cell list" where
  "selected_departments df choice = selected ''Department'' df choice"

definition selected_genders :: "dataframe \<Rightarrow> cell list option \<Rightarrow> cell list" where
  "selected_genders df choice = selected ''Gender'' df choice"

text \<open>
  Line 40: \<^verbatim>\<open>age_min, age_max = int(df['Age'].min()), int(df['Age'].max())\<close>.
  \<^verbatim>\<open>df['Age']\<close> raises KeyError without the column; \<^verbatim>\<open>min()\<close> skips missing values
  and is NaN when none is left, on which \<^verbatim>\<open>int\<close> raises ValueError. The ages of the
  model are integers, so \<^verbatim>\<open>int\<close> changes nothing on a number. The age is a numeric
  field; on a column that holds a text, \<^verbatim>\<open>min()\<close> raises TypeError when it has to
  compare the text with a number or a missing value, and on a column of texts only
  \<^verbatim>\<open>int\<close> raises ValueError on the text it is given (the model leaves out the texts
  that read as integers, on which \<^verbatim>\<open>int\<close> succeeds and line 49 raises TypeError at
  the first row it compares).
\<close>

definition age_bounds :: "dataframe \<Rightarrow> error + (int \<times> int)" where
  "age_bounds df =
     (if ''Age'' \<in> set (columns df)
      then (if list_ex is_text (series df ''Age'')
            then (if list_all is_text (series df ''Age'') then Inl ValueError
                  else Inl TypeError)
            else (case numbers (series df ''Age'') of
                    [] \<Rightarrow> Inl ValueError
                  | a # as \<Rightarrow> Inr (fold min as a, fold max as a)))
      else Inl (KeyError ''Age''))"

text \<open>Line 41: the slider between the bounds, both ends as default.\<close>

definition age_range :: "dataframe \<Rightarrow> (int \<times> int) option \<Rightarrow> error + (int \<times> int)" where
  "age_range df choice =
     (case age_bounds df of
        Inl e \<Rightarrow> Inl e
      | Inr (age_min, age_max) \<Rightarrow> slider age_min age_max (age_min, age_max) choice)"

subsection \<open>Filters (lines 43-49)\<close>

text \<open>\<^verbatim>\<open>isin\<close>: membership of the cell in the list (a missing value matches only a
  missing value of the list).\<close>

definition isin :: "cell \<Rightarrow> cell list \<Rightarrow> bool" where
  "isin v sel = (v \<in> set sel)"

text \<open>\<^verbatim>\<open>df[mask]\<close>: the rows whose mask is true, in order, under the same columns.\<close>

definition select_rows :: "(cell list \<Rightarrow> bool) \<Rightarrow> dataframe \<Rightarrow> dataframe" where
  "select_rows keep df = df\<lparr>rows := filter keep (rows df)\<rparr>"

text \<open>
  Lines 45-46 and 47-48: \<^verbatim>\<open>if sel: d = d[d[c].isin(sel)]\<close>. An empty list is
  falsy, and the column is looked up only when the list is not empty.
\<close>

definition filter_isin :: "string \<Rightarrow> cell list \<Rightarrow> dataframe \<Rightarrow> error + dataframe" where
  "filter_isin c sel d =
     (if sel = [] then Inr d
      else if c \<in> set (columns d)
      then Inr (select_rows (\<lambda>r. isin (value_at d c r) sel) d)
      else Inl (KeyError c))"

text \<open>
  \<^verbatim>\<open>(Age >= lo) & (Age <= hi)\<close> on one cell: a missing value compares false on both
  sides. The comparison is exact; the code compares in float64 when the column holds a
  missing value, which is the same comparison on all integers up to \<open>2\<^sup>5\<^sup>3\<close>, beyond
  the bounds the slider accepts.
\<close>

definition in_range :: "int \<times> int \<Rightarrow> cell \<Rightarrow> bool" where
  "in_range ar v = (case v of Num a \<Rightarrow> fst ar \<le> a \<and> a \<le> snd ar | _ \<Rightarrow> False)"

text \<open>
  Line 49. The column is looked up unconditionally; comparing a text with a number
  raises TypeError.
\<close>

definition filter_age :: "int \<times> int \<Rightarrow> dataframe \<Rightarrow> error + dataframe" where
  "filter_age ar d =
     (if ''Age'' \<in> set (columns d)
      then (if list_ex is_text (series d ''Age'') then Inl TypeError
            else Inr (select_rows (\<lambda>r. in_range ar (value_at d ''Age'' r)) d))
      else Inl (KeyError ''Age''))"

definition apply_filters ::
  "dataframe \<Rightarrow> cell list \<Rightarrow> cell list \<Rightarrow> int \<times> int \<Rightarrow> error + dataframe" where
  "apply_filters df sel_departments sel_genders ar =
     (case filter_isin ''Department'' sel_departments df of
        Inl e \<Rightarrow> Inl e
      | Inr d1 \<Rightarrow>
          (case filter_isin ''Gender'' sel_genders d1 of
             Inl e \<Rightarrow> Inl e
           | Inr d2 \<Rightarrow> filter_age ar d2))"

text \<open>Lines 28-49 in one: the sidebar, then the filters.\<close>

definition filtered_df :: "dataframe \<Rightarrow> widgets \<Rightarrow> error + dataframe" where
  "filtered_df df ui =
     (case age_range df (age_choice ui) of
        Inl e \<Rightarrow> Inl e
      | Inr ar \<Rightarrow>
          apply_filters df
            (selected_departments df (department_choice ui))
            (selected_genders df (gender_choice ui)) ar)"

subsection \<open>Heatmap (lines 108-116)\<close>

text \<open>\<^verbatim>\<open>select_dtypes(include='number').columns\<close>\<close>

definition numeric_cols :: "dataframe \<Rightarrow> string list" where
  "numeric_cols view = map fst (filter (\<lambda>ct. snd ct = Number) (schema view))"

text \<open>
  \<^verbatim>\<open>corr()\<close> computes each entry from the rows in which both columns hold a number.
  The coefficient itself is pandas' routine, of which the script has only the call; it
  is the parameter \<open>coef\<close>, applied to those pairs.
\<close>

fun both_numbers :: "cell \<times> cell \<Rightarrow> (int \<times> int) option" where
  "both_numbers (Num x, Num y) = Some (x, y)"
| "both_numbers _ = None"

definition paired :: "dataframe \<Rightarrow> string \<Rightarrow> string \<Rightarrow> (int \<times> int) list" where
  "paired view a b =
     List.map_filter (\<lambda>r. both_numbers (value_at view a r, value_at view b r)) (rows view)"

definition corr :: "((int \<times> int) list \<Rightarrow> 'c) \<Rightarrow> dataframe \<Rightarrow> string list \<Rightarrow> 'c list list" where
  "corr coef view cols = map (\<lambda>a. map (\<lambda>b. coef (paired view a b)) cols) cols"

text \<open>Lines 111-113: the matrix is computed only over two numeric columns or more.\<close>

definition heatmap :: "((int \<times> int) list \<Rightarrow> 'c) \<Rightarrow> dataframe \<Rightarrow> 'c list list option" where
  "heatmap coef view =
     (if length (numeric_cols view) > 1 then Some (corr coef view (numeric_cols view))
      else None)"

text \<open>
  Modelled from the spec: the coefficient that \<^verbatim>\<open>corr()\<close> computes, which is pandas'
  code and missing from the script. The spec's data model has it as the ``pairwise
  Pearson correlation over numeric fields only'': the sum of the products of the two
  sides' deviations from their means, over the square root of the product of the two
  sums of squared deviations, in exact arithmetic. It is undefined (pandas: NaN, here
  \<open>None\<close>) when that root is zero, as it is without observations, with a single one
  and on a side that does not vary.
\<close>

definition mean_of :: "(int \<times> int \<Rightarrow> int) \<Rightarrow> (int \<times> int) list \<Rightarrow> real" where
  "mean_of side ps = (\<Sum>p\<leftarrow>ps. real_of_int (side p)) / real (length ps)"

text \<open>Modelled from the spec: the sum of the products of the deviations of two sides
  from their means, a part of the Pearson coefficient that \<^verbatim>\<open>corr()\<close> computes.\<close>

definition codeviation ::
  "(int \<times> int \<Rightarrow> int) \<Rightarrow> (int \<times> int \<Rightarrow> int) \<Rightarrow> (int \<times> int) list \<Rightarrow> real" where
  "codeviation f g ps =
     (\<Sum>p\<leftarrow>ps. (real_of_int (f p) - mean_of f ps) * (real_of_int (g p) - mean_of g ps))"

text \<open>Modelled from the spec: the Pearson correlation of a list of paired observations,
  the entry that \<^verbatim>\<open>corr()\<close> computes for two columns.\<close>

definition pearson :: "(int \<times> int) list \<Rightarrow> real option" where
  "pearson ps =
     (if sqrt (codeviation fst fst ps * codeviation snd snd ps) = 0 then None
      else Some (codeviation fst snd ps /
                 sqrt (codeviation fst fst ps * codeviation snd snd ps)))"

subsection \<open>Float64 arithmetic\<close>

text \<open>
  The percentages of the rate tables are float64 numbers: rationals, and every operation
  returns the float64 number nearest to the exact result, the tie going to the even
  significand. \<open>binary64\<close> is that rounding on 53 bits; the range of the exponent is
  not modelled (the numbers rounded below lie between \<open>2\<^sup>-\<^sup>6\<^sup>3\<close> and 100, or are zero).
  \<open>binade x\<close> is the exponent \<open>e\<close> with \<open>2\<^sup>e \<le> \<bar>x\<bar> < 2\<^sup>e\<^sup>+\<^sup>1\<close>.
\<close>

definition binade :: "rat \<Rightarrow> int" where
  "binade x =
     (let d = bitlen (fst (quotient_of \<bar>x\<bar>)) - bitlen (snd (quotient_of \<bar>x\<bar>))
      in if 2 powi d \<le> \<bar>x\<bar> then d else d - 1)"

definition round_half_even :: "rat \<Rightarrow> int" where
  "round_half_even y =
     (let f = \<lfloor>y\<rfloor>; d = y - of_int f
      in if d < 1 / 2 then f else if 1 / 2 < d then f + 1 else if even f then f else f + 1)"

definition binary64 :: "rat \<Rightarrow> rat" where
  "binary64 x =
     (if x = 0 then 0
      else of_int (round_half_even (x / 2 powi (binade x - 52))) * 2 powi (binade x - 52))"

subsection \<open>Rate tables (lines 118-130)\<close>

text \<open>
  \<^verbatim>\<open>pd.crosstab(view[a], view[b], normalize='index') * 100\<close>. The cross tabulation
  counts the rows by their pair of values, leaving out the rows in which either value
  is missing; its row labels are the values of \<open>a\<close> it counted, its column labels
  those of \<open>b\<close>. \<^verbatim>\<open>normalize='index'\<close> divides every count by the sum of its row,
  and the quotient is multiplied by 100: two float64 operations, each rounded. (A count
  is below \<open>2\<^sup>5\<^sup>3\<close> in any frame that fits a memory, so its conversion to float64 is
  exact and is not written out.) The table is a mapping from row label to column label
  to percentage.
\<close>

definition crosstab_pairs :: "dataframe \<Rightarrow> string \<Rightarrow> string \<Rightarrow> (cell \<times> cell) list" where
  "crosstab_pairs view a b =
     filter (\<lambda>p. fst p \<noteq> Null \<and> snd p \<noteq> Null)
       (map (\<lambda>r. (value_at view a r, value_at view b r)) (rows view))"

definition crosstab_count :: "(cell \<times> cell) list \<Rightarrow> cell \<Rightarrow> cell \<Rightarrow> nat" where
  "crosstab_count ps x y = length (filter (\<lambda>p. p = (x, y)) ps)"

definition row_sum :: "(cell \<times> cell) list \<Rightarrow> cell \<Rightarrow> nat" where
  "row_sum ps x = sum_list (map (crosstab_count ps x) (unique (map snd ps)))"

type_synonym rate_table = "cell \<rightharpoonup> (cell \<rightharpoonup> rat)"

definition normalized :: "(cell \<times> cell) list \<Rightarrow> rate_table" where
  "normalized ps =
     (\<lambda>x. if x \<in> set (map fst ps)
          then Some (\<lambda>y. if y \<in> set (map snd ps)
                          then Some (binary64 (binary64 (of_nat (crosstab_count ps x y) /
                                                         of_nat (row_sum ps x)) * 100))
                          else None)
          else None)"

definition crosstab_rate :: "dataframe \<Rightarrow> string \<Rightarrow> string \<Rightarrow> error + rate_table" where
  "crosstab_rate view a b =
     (if a \<in> set (columns view)
      then (if b \<in> set (columns view) then Inr (normalized (crosstab_pairs view a b))
            else Inl (KeyError b))
      else Inl (KeyError a))"

text \<open>Lines 119-123 and 126-130: a table is drawn only when its field is a column
  (\<open>None\<close>: the section is left out).\<close>

definition table1 :: "dataframe \<Rightarrow> (error + rate_table) option" where
  "table1 view =
     (if ''Department'' \<in> set (columns view)
      then Some (crosstab_rate view ''Department'' ''Attrition'') else None)"

definition table2 :: "dataframe \<Rightarrow> (error + rate_table) option" where
  "table2 view =
     (if ''Gender'' \<in> set (columns view)
      then Some (crosstab_rate view ''Gender'' ''Attrition'') else None)"

subsection \<open>Example data\<close>

text \<open>Four employees aged 25, 30, 30 and 40.\<close>

definition ages_example :: dataframe where
  "ages_example =
     \<lparr>schema = [(''EmployeeNumber'', Number), (''Age'', Number)],
      rows = [[Num 1, Num 25], [Num 2, Num 30], [Num 3, Num 30], [Num 4, Num 40]]\<rparr>"

text \<open>Five employees with a department and an attrition label, and no age.\<close>

definition attrition_example :: dataframe where
  "attrition_example =
     \<lparr>schema = [(''Department'', Object), (''Attrition'', Object)],
      rows = [[Str ''Sales'', Str ''Yes''], [Str ''Sales'', Str ''No''],
              [Str ''HR'', Str ''Yes''], [Str ''HR'', Str ''No''],
              [Str ''IT'', Str ''No'']]\<rparr>"

text \<open>Five employees with all four fields; one department and one gender are missing.\<close>

definition staff_example :: dataframe where
  "staff_example =
     \<lparr>schema = [(''Department'', Object), (''Gender'', Object), (''Age'', Number),
                (''Attrition'', Object)],
      rows = [[Str ''Sales'', Str ''Female'', Num 41, Str ''Yes''],
              [Str ''HR'', Str ''Male'', Num 29, Str ''No''],
              [Null, Str ''Male'', Num 35, Str ''No''],
              [Str ''Sales'', Null, Num 52, Str ''No''],
              [Str ''IT'', Str ''Female'', Num 35, Str ''Yes'']]\<rparr>"

text \<open>Two employees with every field present.\<close>

definition complete_example :: dataframe where
  "complete_example =
     \<lparr>schema = [(''Department'', Object), (''Gender'', Object), (''Age'', Number),
                (''Attrition'', Object)],
      rows = [[Str ''Sales'', Str ''Female'', Num 41, Str ''Yes''],
              [Str ''HR'', Str ''Male'', Num 29, Str ''No'']]\<rparr>"

text \<open>Two employees with two numeric fields.\<close>

definition payroll_example :: dataframe where
  "payroll_example =
     \<lparr>schema = [(''Department'', Object), (''Age'', Number), (''MonthlyIncome'', Number),
                (''Attrition'', Object)],
      rows = [[Str ''Sales'', Num 41, Num 5993, Str ''Yes''],
              [Str ''HR'', Num 29, Num 2090, Str ''No'']]\<rparr>"

text \<open>Three employees without a department column; one gender is missing.\<close>

definition no_department_example :: dataframe where
  "no_department_example =
     \<lparr>schema = [(''Gender'', Object), (''Age'', Number), (''Attrition'', Object)],
      rows = [[Str ''Female'', Num 41, Str ''Yes''],
              [Null, Num 29, Str ''No''],
              [Str ''Male'', Num 35, Str ''No'']]\<rparr>"

text \<open>Two employees whose age is missing.\<close>

definition no_ages_example :: dataframe where
  "no_ages_example =
     \<lparr>schema = [(''Department'', Object), (''Age'', Number), (''Attrition'', Object)],
      rows = [[Str ''Sales'', Null, Str ''Yes''],
              [Str ''HR'', Null, Str ''No'']]\<rparr>"

definition untouched :: widgets where
  "untouched = \<lparr>department_choice = None, gender_choice = None, age_choice = None\<rparr>"

section \<open>Properties of the filters\<close>

lemmas frame_defs = columns_def value_at_def series_def is_text_def

lemmas sidebar_defs = dropna_unique_def multiselect_def slider_def selected_def
  selected_departments_def selected_genders_def age_bounds_def age_range_def

lemmas filter_defs = isin_def select_rows_def filter_isin_def in_range_def filter_age_def
  apply_filters_def filtered_df_def

lemma value_at_schema: "schema d' = schema d \<Longrightarrow> value_at d' c r = value_at d c r"
  by (simp add: value_at_def columns_def)

lemma in_range_iff: "in_range (lo, hi) v \<longleftrightarrow> (\<exists>a. v = Num a \<and> lo \<le> a \<and> a \<le> hi)"
  by (cases v) (simp_all add: in_range_def)

text \<open>Each step keeps the columns and filters the rows, when it does not raise.\<close>

lemma filter_isin_Inr:
  assumes "filter_isin c sel d = Inr d'"
  shows "schema d' = schema d"
    and "rows d' = filter (\<lambda>r. sel = [] \<or> value_at d c r \<in> set sel) (rows d)"
  using assms
  by (auto simp: filter_isin_def select_rows_def isin_def split: if_splits)

lemma filter_age_Inr:
  assumes "filter_age ar d = Inr d'"
  shows "schema d' = schema d"
    and "rows d' = filter (\<lambda>r. in_range ar (value_at d ''Age'' r)) (rows d)"
    and "''Age'' \<in> set (columns d)"
  using assms
  by (auto simp: filter_age_def select_rows_def split: if_splits)

text \<open>The three steps together: one filter by the conjunction of the three tests.\<close>

lemma apply_filters_Inr:
  assumes "apply_filters df sd sg ar = Inr view"
  shows "schema view = schema df"
    and "rows view =
           filter (\<lambda>r. (sd = [] \<or> value_at df ''Department'' r \<in> set sd) \<and>
                       (sg = [] \<or> value_at df ''Gender'' r \<in> set sg) \<and>
                       in_range ar (value_at df ''Age'' r)) (rows df)"
proof -
  from assms obtain d1 d2 where
    1: "filter_isin ''Department'' sd df = Inr d1" and
    2: "filter_isin ''Gender'' sg d1 = Inr d2" and
    3: "filter_age ar d2 = Inr view"
    by (auto simp: apply_filters_def split: sum.splits)
  have s1: "schema d1 = schema df" and s2: "schema d2 = schema df"
    using filter_isin_Inr(1)[OF 1] filter_isin_Inr(1)[OF 2] by simp_all
  show "schema view = schema df"
    using filter_age_Inr(1)[OF 3] s2 by simp
  have "rows view = filter (\<lambda>r. in_range ar (value_at df ''Age'' r))
          (filter (\<lambda>r. sg = [] \<or> value_at df ''Gender'' r \<in> set sg)
             (filter (\<lambda>r. sd = [] \<or> value_at df ''Department'' r \<in> set sd) (rows df)))"
    using filter_age_Inr(2)[OF 3] filter_isin_Inr(2)[OF 2] filter_isin_Inr(2)[OF 1]
      value_at_schema[OF s1] value_at_schema[OF s2]
    by simp
  then show "rows view =
           filter (\<lambda>r. (sd = [] \<or> value_at df ''Department'' r \<in> set sd) \<and>
                       (sg = [] \<or> value_at df ''Gender'' r \<in> set sg) \<and>
                       in_range ar (value_at df ''Age'' r)) (rows df)"
    by (simp add: conj_commute conj_left_commute cong: conj_cong)
qed

lemma staff_sales_it_female:
  "apply_filters staff_example [Str ''Sales'', Str ''IT''] [Str ''Female''] (35, 50) =
     Inr (staff_example\<lparr>rows := [[Str ''Sales'', Str ''Female'', Num 41, Str ''Yes''],
                                 [Str ''IT'', Str ''Female'', Num 35, Str ''Yes'']]\<rparr>)"
  by (simp add: staff_example_def frame_defs filter_defs)

subsection \<open>Soundness and completeness\<close>

text \<open>
  C3, as the code has it. Whenever the filters return a view: every row of the view is
  a row of the dataset that satisfies every test the code applies, and no row of the
  dataset outside the view satisfies all of them. The tests are the membership in the
  department list and in the gender list, each applied only when the list is not empty
  (lines 45 and 47 skip an empty list), and \<open>lo \<le> age \<le> hi\<close> with both ends included,
  which is always applied.
\<close>

theorem filter_sound_and_complete:
  assumes "apply_filters df sd sg (lo, hi) = Inr view"
  shows "(\<forall>r \<in> set (rows view).
            r \<in> set (rows df) \<and>
            (sd \<noteq> [] \<longrightarrow> value_at df ''Department'' r \<in> set sd) \<and>
            (sg \<noteq> [] \<longrightarrow> value_at df ''Gender'' r \<in> set sg) \<and>
            (\<exists>a. value_at df ''Age'' r = Num a \<and> lo \<le> a \<and> a \<le> hi))
       \<and> (\<forall>r \<in> set (rows df). r \<notin> set (rows view) \<longrightarrow>
            \<not> ((sd \<noteq> [] \<longrightarrow> value_at df ''Department'' r \<in> set sd) \<and>
               (sg \<noteq> [] \<longrightarrow> value_at df ''Gender'' r \<in> set sg) \<and>
               (\<exists>a. value_at df ''Age'' r = Num a \<and> lo \<le> a \<and> a \<le> hi)))"
  unfolding apply_filters_Inr(2)[OF assms] in_range_iff[symmetric]
  by auto

text \<open>
  On the staff example with departments Sales and IT, gender Female and ages 35 to 50:
  two rows are kept, each passes the three tests, and each of the three other rows
  fails one.
\<close>

theorem filter_sound_and_complete_witness:
  "apply_filters staff_example [Str ''Sales'', Str ''IT''] [Str ''Female''] (35, 50) =
     Inr (staff_example\<lparr>rows := [[Str ''Sales'', Str ''Female'', Num 41, Str ''Yes''],
                                 [Str ''IT'', Str ''Female'', Num 35, Str ''Yes'']]\<rparr>)
   \<and> list_all (\<lambda>r. value_at staff_example ''Department'' r \<in> set [Str ''Sales'', Str ''IT'']
                  \<and> value_at staff_example ''Gender'' r \<in> set [Str ''Female'']
                  \<and> (\<exists>a. value_at staff_example ''Age'' r = Num a \<and> 35 \<le> a \<and> a \<le> 50))
       [[Str ''Sales'', Str ''Female'', Num 41, Str ''Yes''],
        [Str ''IT'', Str ''Female'', Num 35, Str ''Yes'']]
   \<and> list_all (\<lambda>r. \<not> (value_at staff_example ''Department'' r \<in> set [Str ''Sales'', Str ''IT'']
                  \<and> value_at staff_example ''Gender'' r \<in> set [Str ''Female'']
                  \<and> (\<exists>a. value_at staff_example ''Age'' r = Num a \<and> 35 \<le> a \<and> a \<le> 50)))
       [[Str ''HR'', Str ''Male'', Num 29, Str ''No''],
        [Null, Str ''Male'', Num 35, Str ''No''],
        [Str ''Sales'', Null, Num 52, Str ''No'']]"
  using filter_sound_and_complete[OF staff_sales_it_female] staff_sales_it_female
  by (simp add: staff_example_def)

text \<open>
  C3 as stated fails where an inclusion set is given empty: no value is a member of the
  empty set, yet with both sets empty and the ages 0 to 100 both employees are in the
  view.
\<close>

theorem empty_inclusion_set_is_not_enforced:
  "apply_filters complete_example [] [] (0, 100) = Inr complete_example
   \<and> rows complete_example = [[Str ''Sales'', Str ''Female'', Num 41, Str ''Yes''],
                               [Str ''HR'', Str ''Male'', Num 29, Str ''No'']]
   \<and> value_at complete_example ''Department'' [Str ''Sales'', Str ''Female'', Num 41, Str ''Yes'']
        \<notin> set []"
  by (simp add: complete_example_def frame_defs filter_defs)

lemma filtered_df_Inr:
  assumes "filtered_df df ui = Inr view"
  shows "\<exists>ar. age_range df (age_choice ui) = Inr ar \<and>
              apply_filters df (selected_departments df (department_choice ui))
                (selected_genders df (gender_choice ui)) ar = Inr view"
  using assms by (auto simp: filtered_df_def split: sum.splits)

subsection \<open>Order\<close>

lemma ages_30_30:
  "apply_filters ages_example [] [] (30, 30) =
     Inr (ages_example\<lparr>rows := [[Num 2, Num 30], [Num 3, Num 30]]\<rparr>)"
  by (simp add: ages_example_def frame_defs filter_defs)

text \<open>
  C9. The filters are functions of the dataset and the specification, and the rows of
  the view are a subsequence of the rows of the dataset: they keep the order they had
  there. This holds of lines 44-49 alone and of the sidebar and the filters together.
  On the employees aged 25, 30, 30 and 40 (numbered 1 to 4), the range 30 to 30 returns
  employees 2 and 3, in this order.
\<close>

theorem filtering_preserves_order:
  "(\<forall>df sd sg ar view. apply_filters df sd sg ar = Inr view \<longrightarrow> subseq (rows view) (rows df))
   \<and> (\<forall>df ui view. filtered_df df ui = Inr view \<longrightarrow> subseq (rows view) (rows df))
   \<and> rows ages_example = [[Num 1, Num 25], [Num 2, Num 30], [Num 3, Num 30], [Num 4, Num 40]]
   \<and> apply_filters ages_example [] [] (30, 30) =
        Inr (ages_example\<lparr>rows := [[Num 2, Num 30], [Num 3, Num 30]]\<rparr>)
   \<and> filtered_df ages_example (untouched\<lparr>age_choice := Some (30, 30)\<rparr>) =
        Inr (ages_example\<lparr>rows := [[Num 2, Num 30], [Num 3, Num 30]]\<rparr>)"
proof (intro conjI allI impI)
  fix df sd sg ar view
  assume "apply_filters df sd sg ar = Inr view"
  then show "subseq (rows view) (rows df)"
    by (simp add: apply_filters_Inr(2))
next
  fix df ui view
  assume "filtered_df df ui = Inr view"
  then obtain ar sd sg where "apply_filters df sd sg ar = Inr view"
    using filtered_df_Inr by blast
  then show "subseq (rows view) (rows df)"
    by (simp add: apply_filters_Inr(2))
next
  show "rows ages_example = [[Num 1, Num 25], [Num 2, Num 30], [Num 3, Num 30], [Num 4, Num 40]]"
    by (simp add: ages_example_def)
next
  show "apply_filters ages_example [] [] (30, 30) =
        Inr (ages_example\<lparr>rows := [[Num 2, Num 30], [Num 3, Num 30]]\<rparr>)"
    by (rule ages_30_30)
next
  show "filtered_df ages_example (untouched\<lparr>age_choice := Some (30, 30)\<rparr>) =
        Inr (ages_example\<lparr>rows := [[Num 2, Num 30], [Num 3, Num 30]]\<rparr>)"
    by (simp add: ages_example_def untouched_def frame_defs sidebar_defs filter_defs)
qed

theorem filtering_preserves_order_witness:
  "subseq [[Num 2, Num 30], [Num 3, Num 30]]
          [[Num 1, Num 25], [Num 2, Num 30], [Num 3, Num 30], [Num 4, Num 40]]"
  using filtering_preserves_order[THEN conjunct1, rule_format, OF ages_30_30]
  by (simp add: ages_example_def)

subsection \<open>A dataset without the age column\<close>

text \<open>
  Line 40 and line 49 both look the age column up without a test: without the column
  the sidebar raises KeyError, and so do the filters, whatever the specification.
\<close>

lemma age_absent_filtered_df:
  "''Age'' \<notin> set (columns df) \<Longrightarrow> filtered_df df ui = Inl (KeyError ''Age'')"
  by (simp add: filtered_df_def age_range_def age_bounds_def)

lemma age_absent_apply_filters:
  assumes "''Age'' \<notin> set (columns df)"
  shows "\<exists>c. apply_filters df sd sg ar = Inl (KeyError c)"
proof (cases "filter_isin ''Department'' sd df")
  case (Inl e)
  then show ?thesis
    by (auto simp: apply_filters_def filter_isin_def split: if_splits)
next
  case (Inr d1)
  note 1 = this
  show ?thesis
  proof (cases "filter_isin ''Gender'' sg d1")
    case (Inl e)
    with 1 show ?thesis
      by (auto simp: apply_filters_def filter_isin_def split: if_splits)
  next
    case (Inr d2)
    have "columns d2 = columns df"
      using filter_isin_Inr(1)[OF 1] filter_isin_Inr(1)[OF Inr] by (simp add: columns_def)
    with assms 1 Inr show ?thesis
      by (simp add: apply_filters_def filter_age_def)
  qed
qed

text \<open>
  C2 (the code departs from the claim). On the five employees with a department and an
  attrition label and no age column, the sidebar and the filters raise
  \<^verbatim>\<open>KeyError: 'Age'\<close>; the age test does not fall away.
\<close>

theorem age_absent_raises:
  "''Age'' \<notin> set (columns attrition_example)
   \<and> filtered_df attrition_example untouched = Inl (KeyError ''Age'')
   \<and> apply_filters attrition_example [] [] (30, 30) = Inl (KeyError ''Age'')"
  by (simp add: attrition_example_def untouched_def frame_defs sidebar_defs filter_defs)

subsection \<open>A dataset without a categorical field\<close>

lemma in_range_not_text: "in_range ar v \<Longrightarrow> \<not> is_text v"
  by (cases v) (simp_all add: in_range_def is_text_def)

lemma filter_age_all_in_range:
  assumes "''Age'' \<in> set (columns df)"
      and "\<forall>r \<in> set (rows df). in_range ar (value_at df ''Age'' r)"
  shows "filter_age ar df = Inr df"
proof -
  have "\<not> list_ex is_text (series df ''Age'')"
    using assms(2) by (auto simp: list_ex_iff series_def dest: in_range_not_text)
  moreover have "filter (\<lambda>r. in_range ar (value_at df ''Age'' r)) (rows df) = rows df"
    using assms(2) by (simp add: filter_id_conv)
  ultimately show ?thesis
    using assms(1) by (simp add: filter_age_def select_rows_def)
qed

lemma filter_isin_all_pass:
  assumes "sel = [] \<or> (c \<in> set (columns df) \<and> (\<forall>r \<in> set (rows df). value_at df c r \<in> set sel))"
  shows "filter_isin c sel df = Inr df"
proof (cases "sel = []")
  case True
  then show ?thesis
    by (simp add: filter_isin_def)
next
  case False
  with assms have c: "c \<in> set (columns df)"
    and all: "\<forall>r \<in> set (rows df). value_at df c r \<in> set sel"
    by auto
  from all have "filter (\<lambda>r. isin (value_at df c r) sel) (rows df) = rows df"
    by (simp add: filter_id_conv isin_def)
  with False c show ?thesis
    by (simp add: filter_isin_def select_rows_def)
qed

lemma selected_absent: "c \<notin> set (columns df) \<Longrightarrow> selected c df choice = []"
  by (simp add: selected_def)

text \<open>
  C4, as the code has it. When the department column is absent, the department
  selection is the empty list whatever was asked for, its filter is skipped and never
  raises: the filters, and the sidebar and the filters together, give what they give
  without a department selection. The result is the dataset itself (no error, the same
  rows in the same number) when in addition the other tests pass every row: the age
  column is present, the age range holds every row's age, and the gender selection is
  empty or holds every row's gender. The same holds of an absent gender column.
\<close>

theorem absent_categorical_field_is_skipped:
  "(''Department'' \<notin> set (columns df) \<longrightarrow>
      selected_departments df choice = []
      \<and> apply_filters df (selected_departments df choice) sg ar = apply_filters df [] sg ar
      \<and> filtered_df df (ui\<lparr>department_choice := choice\<rparr>) =
          filtered_df df (ui\<lparr>department_choice := None\<rparr>)
      \<and> (''Age'' \<in> set (columns df)
          \<and> (\<forall>r \<in> set (rows df). in_range ar (value_at df ''Age'' r))
          \<and> (sg = [] \<or> (''Gender'' \<in> set (columns df) \<and>
                          (\<forall>r \<in> set (rows df). value_at df ''Gender'' r \<in> set sg)))
          \<longrightarrow> apply_filters df (selected_departments df choice) sg ar = Inr df))
   \<and> (''Gender'' \<notin> set (columns df) \<longrightarrow>
      selected_genders df choice = []
      \<and> apply_filters df sd (selected_genders df choice) ar = apply_filters df sd [] ar
      \<and> filtered_df df (ui\<lparr>gender_choice := choice\<rparr>) =
          filtered_df df (ui\<lparr>gender_choice := None\<rparr>)
      \<and> (''Age'' \<in> set (columns df)
          \<and> (\<forall>r \<in> set (rows df). in_range ar (value_at df ''Age'' r))
          \<and> (sd = [] \<or> (''Department'' \<in> set (columns df) \<and>
                          (\<forall>r \<in> set (rows df). value_at df ''Department'' r \<in> set sd)))
          \<longrightarrow> apply_filters df sd (selected_genders df choice) ar = Inr df))"
proof (intro conjI impI)
  assume a: "''Department'' \<notin> set (columns df)"
  show e: "selected_departments df choice = []"
    using a by (simp add: selected_departments_def selected_absent)
  show "apply_filters df (selected_departments df choice) sg ar = apply_filters df [] sg ar"
    by (simp add: e)
  show "filtered_df df (ui\<lparr>department_choice := choice\<rparr>) =
          filtered_df df (ui\<lparr>department_choice := None\<rparr>)"
    using a by (simp add: filtered_df_def selected_departments_def selected_absent split: sum.splits)
  assume b: "''Age'' \<in> set (columns df)
          \<and> (\<forall>r \<in> set (rows df). in_range ar (value_at df ''Age'' r))
          \<and> (sg = [] \<or> (''Gender'' \<in> set (columns df) \<and>
                          (\<forall>r \<in> set (rows df). value_at df ''Gender'' r \<in> set sg)))"
  then have "filter_isin ''Gender'' sg df = Inr df"
    by (intro filter_isin_all_pass) blast
  moreover from b have "filter_age ar df = Inr df"
    by (intro filter_age_all_in_range) blast+
  ultimately show "apply_filters df (selected_departments df choice) sg ar = Inr df"
    by (simp add: e apply_filters_def filter_isin_def)
next
  assume a: "''Gender'' \<notin> set (columns df)"
  show e: "selected_genders df choice = []"
    using a by (simp add: selected_genders_def selected_absent)
  show "apply_filters df sd (selected_genders df choice) ar = apply_filters df sd [] ar"
    by (simp add: e)
  show "filtered_df df (ui\<lparr>gender_choice := choice\<rparr>) =
          filtered_df df (ui\<lparr>gender_choice := None\<rparr>)"
    using a by (simp add: filtered_df_def selected_genders_def selected_absent split: sum.splits)
  assume b: "''Age'' \<in> set (columns df)
          \<and> (\<forall>r \<in> set (rows df). in_range ar (value_at df ''Age'' r))
          \<and> (sd = [] \<or> (''Department'' \<in> set (columns df) \<and>
                          (\<forall>r \<in> set (rows df). value_at df ''Department'' r \<in> set sd)))"
  then have "filter_isin ''Department'' sd df = Inr df"
    by (intro filter_isin_all_pass) blast
  moreover from b have "filter_age ar df = Inr df"
    by (intro filter_age_all_in_range) blast+
  ultimately show "apply_filters df sd (selected_genders df choice) ar = Inr df"
    by (simp add: e apply_filters_def filter_isin_def)
qed

text \<open>
  The four employees have no department column: asking for the department Sales, with
  no gender selected and the ages 25 to 40, returns all four, and the page shows what it
  shows with the department widget untouched.
\<close>

theorem absent_categorical_field_is_skipped_witness:
  "''Age'' \<in> set (columns ages_example)
   \<and> list_all (\<lambda>r. in_range (25, 40) (value_at ages_example ''Age'' r)) (rows ages_example)
   \<and> ''Department'' \<notin> set (columns ages_example)
   \<and> apply_filters ages_example (selected_departments ages_example (Some [Str ''Sales''])) []
        (25, 40) = Inr ages_example
   \<and> filtered_df ages_example (untouched\<lparr>department_choice := Some [Str ''Sales'']\<rparr>) =
       filtered_df ages_example (untouched\<lparr>department_choice := None\<rparr>)
   \<and> length (rows ages_example) = 4"
proof -
  have a: "''Age'' \<in> set (columns ages_example)"
    by (simp add: ages_example_def columns_def)
  have b: "\<forall>r \<in> set (rows ages_example). in_range (25, 40) (value_at ages_example ''Age'' r)"
    by (simp add: ages_example_def frame_defs in_range_def)
  have c: "''Department'' \<notin> set (columns ages_example)"
    by (simp add: ages_example_def columns_def)
  note t = absent_categorical_field_is_skipped[where df = ages_example and sg = "[]"
      and ar = "(25, 40)" and choice = "Some [Str ''Sales'']" and ui = untouched,
      THEN conjunct1, rule_format, OF c]
  from t a b
  have "apply_filters ages_example (selected_departments ages_example (Some [Str ''Sales''])) []
        (25, 40) = Inr ages_example"
    by blast
  moreover from t
  have "filtered_df ages_example (untouched\<lparr>department_choice := Some [Str ''Sales'']\<rparr>) =
       filtered_df ages_example (untouched\<lparr>department_choice := None\<rparr>)"
    by blast
  moreover have "length (rows ages_example) = 4"
    by (simp add: ages_example_def)
  ultimately show ?thesis
    using a b c by (simp add: list_all_iff)
qed

text \<open>
  C4 as stated fails where another field has a missing value: three employees without a
  department column, one of them without a gender, and the department Sales asked for
  with the other widgets untouched. The untouched gender widget selects the genders
  present, and the view has two rows, not three.
\<close>

theorem absent_field_view_loses_rows:
  "''Department'' \<notin> set (columns no_department_example)
   \<and> filtered_df no_department_example (untouched\<lparr>department_choice := Some [Str ''Sales'']\<rparr>) =
       Inr (no_department_example\<lparr>rows := [[Str ''Female'', Num 41, Str ''Yes''],
                                           [Str ''Male'', Num 35, Str ''No'']]\<rparr>)
   \<and> length (rows no_department_example) = 3"
  by (simp add: no_department_example_def untouched_def frame_defs sidebar_defs filter_defs)

subsection \<open>Missing values\<close>

lemma set_unique: "set (unique xs) = set xs"
  by (induction xs rule: unique.induct) auto

lemma null_not_in_dropna_unique: "Null \<notin> set (dropna_unique df c)"
  by (simp add: dropna_unique_def set_unique)

lemma in_dropna_unique:
  "r \<in> set (rows df) \<Longrightarrow>
     value_at df c r \<in> set (dropna_unique df c) \<longleftrightarrow> value_at df c r \<noteq> Null"
  by (auto simp: dropna_unique_def set_unique series_def)

lemma selected_untouched_no_null: "Null \<notin> set (selected c df None)"
  by (simp add: selected_def multiselect_def null_not_in_dropna_unique)

lemma selected_picked_no_null:
  "set p \<subseteq> set (dropna_unique df c) \<Longrightarrow> Null \<notin> set (selected c df (Some p))"
  using null_not_in_dropna_unique[of df c]
  by (auto simp: selected_def multiselect_def)

lemma apply_filters_no_null:
  assumes "apply_filters df sd sg ar = Inr view"
  shows "sd \<noteq> [] \<Longrightarrow> Null \<notin> set sd \<Longrightarrow>
           \<forall>r \<in> set (rows view). value_at view ''Department'' r \<noteq> Null"
    and "sg \<noteq> [] \<Longrightarrow> Null \<notin> set sg \<Longrightarrow>
           \<forall>r \<in> set (rows view). value_at view ''Gender'' r \<noteq> Null"
  using apply_filters_Inr(2)[OF assms] value_at_schema[OF apply_filters_Inr(1)[OF assms]]
  by auto

text \<open>
  C10. When a field has a selection that is not empty and comes from its widget (the
  untouched default, or a pick among the options), no row of the view has a missing
  value in that field: the options are built after \<^verbatim>\<open>dropna()\<close>, so the selection
  holds no missing value, and \<^verbatim>\<open>isin\<close> is false on a missing value then.
\<close>

theorem missing_values_are_excluded:
  assumes "filtered_df df ui = Inr view"
  shows "((department_choice ui = None \<or>
           (\<exists>p. department_choice ui = Some p \<and> set p \<subseteq> set (dropna_unique df ''Department'')))
          \<and> selected_departments df (department_choice ui) \<noteq> []
          \<longrightarrow> (\<forall>r \<in> set (rows view). value_at view ''Department'' r \<noteq> Null))
       \<and> ((gender_choice ui = None \<or>
           (\<exists>p. gender_choice ui = Some p \<and> set p \<subseteq> set (dropna_unique df ''Gender'')))
          \<and> selected_genders df (gender_choice ui) \<noteq> []
          \<longrightarrow> (\<forall>r \<in> set (rows view). value_at view ''Gender'' r \<noteq> Null))"
proof -
  from filtered_df_Inr[OF assms] obtain ar where
    a: "apply_filters df (selected_departments df (department_choice ui))
          (selected_genders df (gender_choice ui)) ar = Inr view"
    by blast
  have d: "Null \<notin> set (selected_departments df (department_choice ui))"
    if "department_choice ui = None \<or>
        (\<exists>p. department_choice ui = Some p \<and> set p \<subseteq> set (dropna_unique df ''Department''))"
    using that selected_untouched_no_null[of "''Department''" df]
      selected_picked_no_null[of _ df "''Department''"]
    by (auto simp: selected_departments_def)
  have g: "Null \<notin> set (selected_genders df (gender_choice ui))"
    if "gender_choice ui = None \<or>
        (\<exists>p. gender_choice ui = Some p \<and> set p \<subseteq> set (dropna_unique df ''Gender''))"
    using that selected_untouched_no_null[of "''Gender''" df]
      selected_picked_no_null[of _ df "''Gender''"]
    by (auto simp: selected_genders_def)
  show ?thesis
    using apply_filters_no_null[OF a] d g by blast
qed

lemma staff_untouched:
  "filtered_df staff_example untouched =
     Inr (staff_example\<lparr>rows := [[Str ''Sales'', Str ''Female'', Num 41, Str ''Yes''],
                                 [Str ''HR'', Str ''Male'', Num 29, Str ''No''],
                                 [Str ''IT'', Str ''Female'', Num 35, Str ''Yes'']]\<rparr>)"
  by (simp add: staff_example_def untouched_def frame_defs sidebar_defs filter_defs)

lemma staff_departments:
  "selected_departments staff_example None = [Str ''Sales'', Str ''HR'', Str ''IT'']"
  by (simp add: staff_example_def frame_defs sidebar_defs)

theorem missing_values_are_excluded_witness:
  "filtered_df staff_example untouched =
     Inr (staff_example\<lparr>rows := [[Str ''Sales'', Str ''Female'', Num 41, Str ''Yes''],
                                 [Str ''HR'', Str ''Male'', Num 29, Str ''No''],
                                 [Str ''IT'', Str ''Female'', Num 35, Str ''Yes'']]\<rparr>)
   \<and> department_choice untouched = None
   \<and> selected_departments staff_example (department_choice untouched) \<noteq> []
   \<and> [Null, Str ''Male'', Num 35, Str ''No''] \<in> set (rows staff_example)
   \<and> list_all (\<lambda>r. value_at staff_example ''Department'' r \<noteq> Null)
        [[Str ''Sales'', Str ''Female'', Num 41, Str ''Yes''],
         [Str ''HR'', Str ''Male'', Num 29, Str ''No''],
         [Str ''IT'', Str ''Female'', Num 35, Str ''Yes'']]"
proof -
  have c: "department_choice untouched = None"
    by (simp add: untouched_def)
  have n: "selected_departments staff_example (department_choice untouched) \<noteq> []"
    by (simp add: c staff_departments)
  from missing_values_are_excluded[OF staff_untouched] c n
  have "\<forall>r \<in> set (rows (staff_example\<lparr>rows := [[Str ''Sales'', Str ''Female'', Num 41, Str ''Yes''],
                                 [Str ''HR'', Str ''Male'', Num 29, Str ''No''],
                                 [Str ''IT'', Str ''Female'', Num 35, Str ''Yes'']]\<rparr>)).
          value_at (staff_example\<lparr>rows := [[Str ''Sales'', Str ''Female'', Num 41, Str ''Yes''],
                                 [Str ''HR'', Str ''Male'', Num 29, Str ''No''],
                                 [Str ''IT'', Str ''Female'', Num 35, Str ''Yes'']]\<rparr>) ''Department'' r \<noteq> Null"
    by blast
  then have "list_all (\<lambda>r. value_at staff_example ''Department'' r \<noteq> Null)
        [[Str ''Sales'', Str ''Female'', Num 41, Str ''Yes''],
         [Str ''HR'', Str ''Male'', Num 29, Str ''No''],
         [Str ''IT'', Str ''Female'', Num 35, Str ''Yes'']]"
    by (simp add: value_at_def columns_def)
  moreover have "[Null, Str ''Male'', Num 35, Str ''No''] \<in> set (rows staff_example)"
    by (simp add: staff_example_def)
  ultimately show ?thesis
    using staff_untouched c n by simp
qed

subsection \<open>The empty selection\<close>

lemma selected_departments_explicit_empty: "selected_departments df (Some []) = []"
  by (simp add: selected_departments_def selected_def multiselect_def)

lemma selected_departments_untouched:
  "selected_departments df None = dropna_unique df ''Department''"
proof (cases "''Department'' \<in> set (columns df)")
  case True
  then show ?thesis
    by (simp add: selected_departments_def selected_def multiselect_def)
next
  case False
  have none: "map_of (zip (columns df) r) ''Department'' = None" for r
  proof (rule ccontr)
    assume "map_of (zip (columns df) r) ''Department'' \<noteq> None"
    then obtain v where "map_of (zip (columns df) r) ''Department'' = Some v"
      by blast
    then have "(''Department'', v) \<in> set (zip (columns df) r)"
      by (rule map_of_SomeD)
    then have "''Department'' \<in> set (columns df)"
      by (rule set_zip_leftD)
    with False show False
      by simp
  qed
  have "value_at df ''Department'' r = Null" for r
    by (simp add: value_at_def none)
  then have "filter (\<lambda>v. v \<noteq> Null) (series df ''Department'') = []"
    by (simp add: series_def filter_empty_conv)
  then have "dropna_unique df ''Department'' = []"
    by (simp add: dropna_unique_def)
  with False show ?thesis
    by (simp add: selected_departments_def selected_def)
qed

text \<open>
  C1, as the code has it. A department selection that the caller gives as the empty
  list is not a filter at all: line 45 skips it, and the view holds every row that
  passes the gender and the age test. The untouched default selects the distinct
  non-missing values, so it lets every value pass and drops only the rows whose
  department is missing (when the column has a value at all). The two views are the
  same whenever no department is missing.
\<close>

theorem empty_selection_is_no_filter:
  assumes e: "filtered_df df (ui\<lparr>department_choice := Some []\<rparr>) = Inr v_empty"
      and d: "filtered_df df (ui\<lparr>department_choice := None\<rparr>) = Inr v_default"
  shows "\<exists>ar. age_range df (age_choice ui) = Inr ar
          \<and> rows v_empty =
              filter (\<lambda>r. (selected_genders df (gender_choice ui) = [] \<or>
                          value_at df ''Gender'' r \<in> set (selected_genders df (gender_choice ui)))
                         \<and> in_range ar (value_at df ''Age'' r)) (rows df)
          \<and> rows v_default =
              filter (\<lambda>r. dropna_unique df ''Department'' = [] \<or>
                          value_at df ''Department'' r \<noteq> Null) (rows v_empty)
          \<and> ((\<forall>r \<in> set (rows df). value_at df ''Department'' r \<noteq> Null) \<longrightarrow> v_default = v_empty)"
proof -
  let ?sg = "selected_genders df (gender_choice ui)"
  let ?opts = "dropna_unique df ''Department''"
  from filtered_df_Inr[OF e] obtain ar where
    ar: "age_range df (age_choice ui) = Inr ar" and
    ae: "apply_filters df [] ?sg ar = Inr v_empty"
    by (auto simp: selected_departments_explicit_empty)
  from filtered_df_Inr[OF d] ar have
    ad: "apply_filters df ?opts ?sg ar = Inr v_default"
    by (auto simp: selected_departments_untouched)
  let ?others = "\<lambda>r. (?sg = [] \<or> value_at df ''Gender'' r \<in> set ?sg)
                    \<and> in_range ar (value_at df ''Age'' r)"
  have re: "rows v_empty = filter ?others (rows df)"
    using apply_filters_Inr(2)[OF ae] by simp
  have "rows v_default =
          filter (\<lambda>r. (?opts = [] \<or> value_at df ''Department'' r \<in> set ?opts) \<and> ?others r)
            (rows df)"
    using apply_filters_Inr(2)[OF ad] by simp
  also have "\<dots> = filter (\<lambda>r. (?opts = [] \<or> value_at df ''Department'' r \<noteq> Null) \<and> ?others r)
            (rows df)"
    by (rule filter_cong) (auto simp: in_dropna_unique)
  also have "\<dots> = filter (\<lambda>r. ?opts = [] \<or> value_at df ''Department'' r \<noteq> Null) (rows v_empty)"
    unfolding re by (simp add: conj_commute)
  finally have rd: "rows v_default =
      filter (\<lambda>r. ?opts = [] \<or> value_at df ''Department'' r \<noteq> Null) (rows v_empty)" .
  have same: "v_default = v_empty" if "\<forall>r \<in> set (rows df). value_at df ''Department'' r \<noteq> Null"
  proof -
    have "set (rows v_empty) \<subseteq> set (rows df)"
      unfolding re by auto
    with that have "rows v_default = rows v_empty"
      unfolding rd by (auto simp: filter_id_conv)
    moreover have "schema v_default = schema v_empty"
      using apply_filters_Inr(1)[OF ad] apply_filters_Inr(1)[OF ae] by simp
    ultimately show ?thesis
      by simp
  qed
  from ar re rd same show ?thesis
    by blast
qed

lemma staff_no_department_picked:
  "filtered_df staff_example (untouched\<lparr>department_choice := Some []\<rparr>) =
     Inr (staff_example\<lparr>rows := [[Str ''Sales'', Str ''Female'', Num 41, Str ''Yes''],
                                 [Str ''HR'', Str ''Male'', Num 29, Str ''No''],
                                 [Null, Str ''Male'', Num 35, Str ''No''],
                                 [Str ''IT'', Str ''Female'', Num 35, Str ''Yes'']]\<rparr>)"
  by (simp add: staff_example_def untouched_def frame_defs sidebar_defs filter_defs)

lemma staff_department_untouched:
  "filtered_df staff_example (untouched\<lparr>department_choice := None\<rparr>) =
     Inr (staff_example\<lparr>rows := [[Str ''Sales'', Str ''Female'', Num 41, Str ''Yes''],
                                 [Str ''HR'', Str ''Male'', Num 29, Str ''No''],
                                 [Str ''IT'', Str ''Female'', Num 35, Str ''Yes'']]\<rparr>)"
  by (simp add: staff_example_def untouched_def frame_defs sidebar_defs filter_defs)

theorem empty_selection_is_no_filter_witness:
  "filtered_df staff_example (untouched\<lparr>department_choice := Some []\<rparr>) =
     Inr (staff_example\<lparr>rows := [[Str ''Sales'', Str ''Female'', Num 41, Str ''Yes''],
                                 [Str ''HR'', Str ''Male'', Num 29, Str ''No''],
                                 [Null, Str ''Male'', Num 35, Str ''No''],
                                 [Str ''IT'', Str ''Female'', Num 35, Str ''Yes'']]\<rparr>)
   \<and> filtered_df staff_example (untouched\<lparr>department_choice := None\<rparr>) =
     Inr (staff_example\<lparr>rows := [[Str ''Sales'', Str ''Female'', Num 41, Str ''Yes''],
                                 [Str ''HR'', Str ''Male'', Num 29, Str ''No''],
                                 [Str ''IT'', Str ''Female'', Num 35, Str ''Yes'']]\<rparr>)
   \<and> [[Str ''Sales'', Str ''Female'', Num 41, Str ''Yes''],
       [Str ''HR'', Str ''Male'', Num 29, Str ''No''],
       [Str ''IT'', Str ''Female'', Num 35, Str ''Yes'']] =
      filter (\<lambda>r. dropna_unique staff_example ''Department'' = [] \<or>
                  value_at staff_example ''Department'' r \<noteq> Null)
        [[Str ''Sales'', Str ''Female'', Num 41, Str ''Yes''],
         [Str ''HR'', Str ''Male'', Num 29, Str ''No''],
         [Null, Str ''Male'', Num 35, Str ''No''],
         [Str ''IT'', Str ''Female'', Num 35, Str ''Yes'']]"
proof -
  from empty_selection_is_no_filter[OF staff_no_department_picked staff_department_untouched]
  have "rows (staff_example\<lparr>rows := [[Str ''Sales'', Str ''Female'', Num 41, Str ''Yes''],
                                 [Str ''HR'', Str ''Male'', Num 29, Str ''No''],
                                 [Str ''IT'', Str ''Female'', Num 35, Str ''Yes'']]\<rparr>) =
        filter (\<lambda>r. dropna_unique staff_example ''Department'' = [] \<or>
                  value_at staff_example ''Department'' r \<noteq> Null)
          (rows (staff_example\<lparr>rows := [[Str ''Sales'', Str ''Female'', Num 41, Str ''Yes''],
                                 [Str ''HR'', Str ''Male'', Num 29, Str ''No''],
                                 [Null, Str ''Male'', Num 35, Str ''No''],
                                 [Str ''IT'', Str ''Female'', Num 35, Str ''Yes'']]\<rparr>))"
    by blast
  then show ?thesis
    using staff_no_department_picked staff_department_untouched by simp
qed

text \<open>
  C1 as stated fails: on two employees of departments Sales and HR, the empty selection
  returns both rows, not none, and the same view as the untouched default.
\<close>

theorem empty_selection_selects_rows:
  "filtered_df complete_example (untouched\<lparr>department_choice := Some []\<rparr>) = Inr complete_example
   \<and> filtered_df complete_example (untouched\<lparr>department_choice := None\<rparr>) = Inr complete_example
   \<and> length (rows complete_example) = 2
   \<and> series complete_example ''Department'' = [Str ''Sales'', Str ''HR'']"
  by (simp add: complete_example_def untouched_def frame_defs sidebar_defs filter_defs)

section \<open>Properties of the rounding\<close>

text \<open>
  \<open>binary64\<close> errs by at most \<open>\<bar>x\<bar> / 2\<^sup>5\<^sup>3\<close>, and not at all on an integer of at most 53
  bits over a power of two.
\<close>

lemma two_power_nat: "0 \<le> n \<Longrightarrow> (2::rat) ^ nat n = 2 powi n"
  by (simp add: power_int_def)

lemma bitlen_pos: "0 < a \<Longrightarrow> 1 \<le> bitlen a"
  by (auto simp: bitlen_alt_def)

lemma binade_bounds:
  assumes "x \<noteq> 0"
  shows "2 powi binade x \<le> \<bar>x\<bar>" and "\<bar>x\<bar> < 2 powi (binade x + 1)"
proof -
  obtain a b where q: "quotient_of \<bar>x\<bar> = (a, b)"
    by (cases "quotient_of \<bar>x\<bar>")
  have b: "0 < b"
    using q by (rule quotient_of_denom_pos)
  have x: "\<bar>x\<bar> = of_int a / of_int b"
    using q by (rule quotient_of_div)
  have a: "0 < a"
  proof -
    have "0 < \<bar>x\<bar>" using assms by simp
    then have "0 < (of_int a :: rat) / of_int b" by (simp only: x)
    with b show ?thesis by (simp add: zero_less_divide_iff)
  qed
  let ?la = "bitlen a" and ?lb = "bitlen b"
  let ?d = "?la - ?lb"
  have la: "1 \<le> ?la" and lb: "1 \<le> ?lb"
    using a b by (simp_all add: bitlen_pos)
  have a_lo: "2 powi (?la - 1) \<le> (of_int a :: rat)" and a_hi: "(of_int a :: rat) < 2 powi ?la"
  proof -
    from bitlen_bounds[OF a] have "2 ^ nat (?la - 1) \<le> a" "a < 2 ^ nat ?la"
      by simp_all
    then have "(of_int (2 ^ nat (?la - 1)) :: rat) \<le> of_int a" "(of_int a :: rat) < of_int (2 ^ nat ?la)"
      by (simp_all only: of_int_le_iff of_int_less_iff)
    then show "2 powi (?la - 1) \<le> (of_int a :: rat)" "(of_int a :: rat) < 2 powi ?la"
      using la by (simp_all add: two_power_nat)
  qed
  have b_lo: "2 powi (?lb - 1) \<le> (of_int b :: rat)" and b_hi: "(of_int b :: rat) < 2 powi ?lb"
  proof -
    from bitlen_bounds[OF b] have "2 ^ nat (?lb - 1) \<le> b" "b < 2 ^ nat ?lb"
      by simp_all
    then have "(of_int (2 ^ nat (?lb - 1)) :: rat) \<le> of_int b" "(of_int b :: rat) < of_int (2 ^ nat ?lb)"
      by (simp_all only: of_int_le_iff of_int_less_iff)
    then show "2 powi (?lb - 1) \<le> (of_int b :: rat)" "(of_int b :: rat) < 2 powi ?lb"
      using lb by (simp_all add: two_power_nat)
  qed
  have bpos: "0 < (of_int b :: rat)" using b by simp
  have lower: "2 powi (?d - 1) < \<bar>x\<bar>"
  proof -
    have "?d - 1 = (?la - 1) - ?lb"
      by simp
    then have "(2::rat) powi (?d - 1) = 2 powi (?la - 1) / 2 powi ?lb"
      by (simp only: power_int_diff[of "2::rat" "?la - 1" ?lb, simplified])
    also have "\<dots> \<le> of_int a / 2 powi ?lb"
      using a_lo by (simp add: divide_right_mono)
    also have "\<dots> < of_int a / of_int b"
      using a b_hi bpos by (simp add: divide_strict_left_mono)
    finally show ?thesis by (simp only: x)
  qed
  have upper: "\<bar>x\<bar> < 2 powi (?d + 1)"
  proof -
    have "\<bar>x\<bar> = of_int a / of_int b" by (rule x)
    also have "\<dots> < 2 powi ?la / of_int b"
      using a_hi bpos by (simp add: divide_strict_right_mono)
    also have "\<dots> \<le> 2 powi ?la / 2 powi (?lb - 1)"
      using b_lo bpos by (intro divide_left_mono) simp_all
    also have "\<dots> = 2 powi (?la - (?lb - 1))"
      by (simp only: power_int_diff[of "2::rat" ?la "?lb - 1", simplified])
    also have "?la - (?lb - 1) = ?d + 1"
      by simp
    finally show ?thesis .
  qed
  have e: "binade x = (if 2 powi ?d \<le> \<bar>x\<bar> then ?d else ?d - 1)"
    by (simp add: binade_def q)
  show "2 powi binade x \<le> \<bar>x\<bar>"
    using lower by (simp add: e)
  show "\<bar>x\<bar> < 2 powi (binade x + 1)"
    using upper by (simp add: e)
qed


lemma round_half_even_error: "\<bar>of_int (round_half_even y) - y\<bar> \<le> 1 / 2"
proof -
  have "of_int \<lfloor>y\<rfloor> \<le> y" "y < of_int \<lfloor>y\<rfloor> + 1"
    by linarith+
  then show ?thesis
    by (auto simp: round_half_even_def Let_def abs_le_iff)
qed

lemma round_half_even_of_int: "round_half_even (of_int k) = k"
  by (simp add: round_half_even_def)

lemma binary64_error: "\<bar>binary64 x - x\<bar> \<le> \<bar>x\<bar> / 2 ^ 53"
proof (cases "x = 0")
  case True
  then show ?thesis by (simp add: binary64_def)
next
  case False
  let ?ulp = "(2::rat) powi (binade x - 52)"
  let ?r = "round_half_even (x / ?ulp)"
  have pos: "0 < ?ulp" by simp
  have "binary64 x - x = (of_int ?r - x / ?ulp) * ?ulp"
    using False by (simp add: binary64_def algebra_simps)
  then have "\<bar>binary64 x - x\<bar> = \<bar>of_int ?r - x / ?ulp\<bar> * ?ulp"
    using pos by (simp add: abs_mult)
  also have "\<dots> \<le> (1 / 2) * ?ulp"
    using pos by (intro mult_right_mono round_half_even_error) simp
  also have "(1 / 2) * ?ulp = 2 powi binade x / 2 ^ 53"
  proof -
    have "(2::rat) powi (binade x - 52) = 2 powi binade x / 2 powi 52"
      by (rule power_int_diff) simp
    then show ?thesis by simp
  qed
  also have "\<dots> \<le> \<bar>x\<bar> / 2 ^ 53"
    using binade_bounds(1)[OF False] by (simp add: divide_right_mono)
  finally show ?thesis .
qed

lemma binary64_exact:
  assumes "\<bar>k\<bar> < 2 ^ 53"
  shows "binary64 (of_int k / 2 ^ n) = of_int k / 2 ^ n"
proof (cases "k = 0")
  case True
  then show ?thesis by (simp add: binary64_def)
next
  case False
  let ?x = "of_int k / 2 ^ n :: rat"
  let ?e = "binade ?x"
  have x0: "?x \<noteq> 0" using False by simp
  have "2 powi ?e \<le> \<bar>?x\<bar>"
    by (rule binade_bounds(1)[OF x0])
  also have "\<bar>?x\<bar> = of_int \<bar>k\<bar> / 2 ^ n"
    by (simp add: abs_divide)
  also have "\<dots> < 2 ^ 53 / 2 ^ n"
  proof -
    have "(of_int \<bar>k\<bar> :: rat) < of_int (2 ^ 53)"
      using assms by (simp only: of_int_less_iff)
    then show ?thesis by (simp add: divide_strict_right_mono)
  qed
  finally have "2 powi ?e * 2 ^ n < (2::rat) ^ 53"
    by (simp add: field_simps)
  moreover have "(2::rat) powi ?e * 2 ^ n = 2 powi (?e + int n)"
    by (simp add: power_int_add)
  ultimately have "(2::rat) powi (?e + int n) < 2 powi 53"
    by simp
  then have lt: "?e + int n < 53"
    by (rule power_int_le_imp_less_exp[rotated]) simp_all
  define j where "j = nat (52 - ?e - int n)"
  have j: "int j = 52 - ?e - int n"
    using lt by (simp add: j_def)
  have ulp: "(2::rat) powi (?e - 52) = 1 / (2 ^ n * 2 ^ j)"
  proof -
    have "?e - 52 = - (int n + int j)"
      using j by simp
    then have "(2::rat) powi (?e - 52) = 2 powi (- (int n + int j))"
      by simp
    also have "\<dots> = inverse (2 powi (int n + int j))"
      by (rule power_int_minus)
    also have "\<dots> = 1 / (2 ^ n * 2 ^ j)"
      by (simp add: power_int_add inverse_eq_divide)
    finally show ?thesis .
  qed
  have "?x / 2 powi (?e - 52) = of_int (k * 2 ^ j)"
    unfolding ulp by simp
  then have "round_half_even (?x / 2 powi (?e - 52)) = k * 2 ^ j"
    by (simp only: round_half_even_of_int)
  then have "binary64 ?x = of_int (k * 2 ^ j) * (1 / (2 ^ n * 2 ^ j))"
    using x0 by (simp only: binary64_def ulp if_False)
  then show ?thesis
    by simp
qed

lemma binary64_small_numbers:
  "binary64 0 = 0" "binary64 1 = 1" "binary64 (1 / 2) = 1 / 2"
  "binary64 50 = 50" "binary64 100 = 100"
  using binary64_exact[of 0 0] binary64_exact[of 1 0] binary64_exact[of 1 1]
    binary64_exact[of 50 0] binary64_exact[of 100 0]
  by simp_all

section \<open>Properties of the rate tables\<close>

lemma distinct_unique: "distinct (unique xs)"
  by (induction xs rule: unique.induct) (auto simp: set_unique)

lemma count_by_label:
  assumes "finite Y" and "snd ` set ps \<subseteq> Y"
  shows "length (filter (\<lambda>p. fst p = x) ps) = (\<Sum>y\<in>Y. crosstab_count ps x y)"
  using assms(2)
proof (induction ps)
  case Nil
  then show ?case by (simp add: crosstab_count_def)
next
  case (Cons p ps)
  then have ih: "length (filter (\<lambda>p. fst p = x) ps) = (\<Sum>y\<in>Y. crosstab_count ps x y)"
    and mem: "snd p \<in> Y"
    by auto
  have split: "crosstab_count (p # ps) x y = (if p = (x, y) then 1 else 0) + crosstab_count ps x y"
    for y
    by (simp add: crosstab_count_def)
  have "(\<Sum>y\<in>Y. crosstab_count (p # ps) x y) =
          (\<Sum>y\<in>Y. if p = (x, y) then 1 else 0) + (\<Sum>y\<in>Y. crosstab_count ps x y)"
    by (simp add: split sum.distrib)
  also have "(\<Sum>y\<in>Y. if p = (x, y) then 1 else 0) = (if fst p = x then 1 else (0::nat))"
  proof (cases "fst p = x")
    case True
    then have "(\<Sum>y\<in>Y. if p = (x, y) then 1 else (0::nat)) =
               (\<Sum>y\<in>Y. if snd p = y then 1 else 0)"
      by (intro sum.cong) (auto simp: prod_eq_iff)
    also have "\<dots> = 1"
      using mem assms(1) by (simp add: sum.delta')
    finally show ?thesis
      using True by simp
  next
    case False
    then have "(\<Sum>y\<in>Y. if p = (x, y) then 1 else (0::nat)) = (\<Sum>y\<in>Y. 0)"
      by (intro sum.cong) auto
    then show ?thesis
      using False by simp
  qed
  finally show ?case
    using ih by simp
qed

lemma row_sum_eq: "row_sum ps x = length (filter (\<lambda>p. fst p = x) ps)"
proof -
  have "row_sum ps x = (\<Sum>y\<in>set (map snd ps). crosstab_count ps x y)"
    by (simp add: row_sum_def sum_list_distinct_conv_sum_set distinct_unique set_unique)
  also have "\<dots> = length (filter (\<lambda>p. fst p = x) ps)"
    by (rule count_by_label[symmetric]) simp_all
  finally show ?thesis .
qed

lemma row_sum_pos:
  assumes "x \<in> set (map fst ps)"
  shows "0 < row_sum ps x"
proof -
  from assms obtain p where "p \<in> set ps" "fst p = x"
    by auto
  then have "filter (\<lambda>p. fst p = x) ps \<noteq> []"
    by (auto simp: filter_empty_conv)
  then show ?thesis
    by (simp add: row_sum_eq)
qed

text \<open>In exact arithmetic the fractions of a row sum to one.\<close>

lemma row_fractions_sum:
  assumes "x \<in> set (map fst ps)"
  shows "(\<Sum>y\<in>set (map snd ps). (of_nat (crosstab_count ps x y) :: rat) / of_nat (row_sum ps x)) = 1"
proof -
  have "(\<Sum>y\<in>set (map snd ps). (of_nat (crosstab_count ps x y) :: rat) / of_nat (row_sum ps x)) =
          of_nat (\<Sum>y\<in>set (map snd ps). crosstab_count ps x y) / of_nat (row_sum ps x)"
    by (simp add: sum_divide_distrib)
  also have "(\<Sum>y\<in>set (map snd ps). crosstab_count ps x y) = row_sum ps x"
    by (simp add: row_sum_def sum_list_distinct_conv_sum_set distinct_unique set_unique)
  also have "(of_nat (row_sum ps x) :: rat) / of_nat (row_sum ps x) = 1"
    using row_sum_pos[OF assms] by simp
  finally show ?thesis .
qed

text \<open>One rounded percentage against the exact one: two roundings, each of relative
  error \<open>u\<close>.\<close>

lemma rounded_percentage:
  fixes q u :: rat
  assumes fl: "\<And>x. \<bar>fl x - x\<bar> \<le> \<bar>x\<bar> * u" and "0 \<le> q" and "0 \<le> u"
  shows "\<bar>fl (fl q * 100) - q * 100\<bar> \<le> q * (100 * (2 * u + u * u))"
proof -
  have 1: "\<bar>fl q - q\<bar> \<le> q * u"
    using fl[of q] assms(2) by simp
  then have 2: "\<bar>fl q\<bar> \<le> q + q * u"
    using assms(2) by (simp add: abs_le_iff abs_diff_le_iff)
  have "\<bar>fl (fl q * 100) - fl q * 100\<bar> \<le> \<bar>fl q * 100\<bar> * u"
    by (rule fl)
  also have "\<dots> = \<bar>fl q\<bar> * (100 * u)"
    by (simp add: abs_mult)
  also have "\<dots> \<le> (q + q * u) * (100 * u)"
    using 2 assms(3) by (intro mult_right_mono) simp_all
  finally have 3: "\<bar>fl (fl q * 100) - fl q * 100\<bar> \<le> (q + q * u) * (100 * u)" .
  have "fl (fl q * 100) - q * 100 = (fl (fl q * 100) - fl q * 100) + (fl q - q) * 100"
    by (simp add: algebra_simps)
  then have "\<bar>fl (fl q * 100) - q * 100\<bar> \<le>
             \<bar>fl (fl q * 100) - fl q * 100\<bar> + \<bar>(fl q - q) * 100\<bar>"
    by (simp only: abs_triangle_ineq)
  moreover have "\<bar>(fl q - q) * 100\<bar> = \<bar>fl q - q\<bar> * 100"
    unfolding abs_mult by simp
  ultimately have "\<bar>fl (fl q * 100) - q * 100\<bar> \<le>
             \<bar>fl (fl q * 100) - fl q * 100\<bar> + \<bar>fl q - q\<bar> * 100"
    by (simp only:)
  also have "\<dots> \<le> (q + q * u) * (100 * u) + (q * u) * 100"
  proof (rule add_mono)
    show "\<bar>fl (fl q * 100) - fl q * 100\<bar> \<le> (q + q * u) * (100 * u)"
      by (rule 3)
    show "\<bar>fl q - q\<bar> * 100 \<le> q * u * 100"
      using 1 by (intro mult_right_mono) simp_all
  qed
  also have "\<dots> = q * (100 * (2 * u + u * u))"
    by (simp add: algebra_simps)
  finally show ?thesis .
qed

lemma normalized_row_total:
  assumes "normalized ps x = Some m"
  shows "dom m = set (map snd ps)"
    and "\<bar>(\<Sum>y\<in>dom m. the (m y)) - 100\<bar> \<le> 100 * (2 / 2 ^ 53 + 1 / 2 ^ 106)"
proof -
  let ?u = "1 / 2 ^ 53 :: rat"
  let ?q = "\<lambda>y. (of_nat (crosstab_count ps x y) :: rat) / of_nat (row_sum ps x)"
  let ?p = "\<lambda>y. binary64 (binary64 (?q y) * 100)"
  from assms have x: "x \<in> set (map fst ps)"
    by (auto simp: normalized_def split: if_splits)
  with assms have m: "m = (\<lambda>y. if y \<in> set (map snd ps) then Some (?p y) else None)"
    by (auto simp: normalized_def)
  show d: "dom m = set (map snd ps)"
    by (auto simp: m dom_def)
  have fl: "\<bar>binary64 z - z\<bar> \<le> \<bar>z\<bar> * ?u" for z
    using binary64_error[of z] by simp
  have each: "\<bar>?p y - ?q y * 100\<bar> \<le> ?q y * (100 * (2 * ?u + ?u * ?u))" for y
    by (rule rounded_percentage[OF fl]) simp_all
  have "(\<Sum>y\<in>dom m. the (m y)) - 100 =
          (\<Sum>y\<in>set (map snd ps). ?p y) - (\<Sum>y\<in>set (map snd ps). ?q y) * 100"
    unfolding d row_fractions_sum[OF x] by (simp add: m)
  also have "\<dots> = (\<Sum>y\<in>set (map snd ps). ?p y - ?q y * 100)"
    by (simp add: sum_subtractf sum_distrib_right)
  finally have "\<bar>(\<Sum>y\<in>dom m. the (m y)) - 100\<bar> = \<bar>\<Sum>y\<in>set (map snd ps). ?p y - ?q y * 100\<bar>"
    by simp
  also have "\<dots> \<le> (\<Sum>y\<in>set (map snd ps). \<bar>?p y - ?q y * 100\<bar>)"
    by (rule sum_abs)
  also have "\<dots> \<le> (\<Sum>y\<in>set (map snd ps). ?q y * (100 * (2 * ?u + ?u * ?u)))"
    by (rule sum_mono) (rule each)
  also have "\<dots> = (\<Sum>y\<in>set (map snd ps). ?q y) * (100 * (2 * ?u + ?u * ?u))"
    by (rule sum_distrib_right[symmetric])
  also have "\<dots> = 100 * (2 / 2 ^ 53 + 1 / 2 ^ 106)"
    unfolding row_fractions_sum[OF x] by (simp add: power_add[symmetric] del: power_numeral)
  finally show "\<bar>(\<Sum>y\<in>dom m. the (m y)) - 100\<bar> \<le> 100 * (2 / 2 ^ 53 + 1 / 2 ^ 106)" .
qed

lemma rounding_within_tolerance: "100 * (2 / 2 ^ 53 + 1 / 2 ^ 106) \<le> (1 / 10 ^ 6 :: rat)"
  by simp

lemma normalized_dom:
  "normalized ps x \<noteq> None \<longleftrightarrow> x \<in> set (map fst ps)"
  by (simp add: normalized_def)

lemma crosstab_pairs_fst:
  "x \<in> set (map fst (crosstab_pairs view a b)) \<longleftrightarrow>
     x \<noteq> Null \<and> (\<exists>r \<in> set (rows view). value_at view a r = x \<and> value_at view b r \<noteq> Null)"
proof
  assume "x \<in> set (map fst (crosstab_pairs view a b))"
  then show "x \<noteq> Null \<and> (\<exists>r \<in> set (rows view). value_at view a r = x \<and> value_at view b r \<noteq> Null)"
    by (auto simp: crosstab_pairs_def)
next
  assume "x \<noteq> Null \<and> (\<exists>r \<in> set (rows view). value_at view a r = x \<and> value_at view b r \<noteq> Null)"
  then obtain r where r: "r \<in> set (rows view)" "value_at view a r = x" "value_at view b r \<noteq> Null"
    and x: "x \<noteq> Null"
    by blast
  then have "(x, value_at view b r) \<in> set (crosstab_pairs view a b)"
    by (auto simp: crosstab_pairs_def)
  then show "x \<in> set (map fst (crosstab_pairs view a b))"
    by force
qed

lemma attrition_example_rates:
  "crosstab_rate attrition_example ''Department'' ''Attrition'' =
     Inr [Str ''Sales'' \<mapsto> [Str ''Yes'' \<mapsto> 50, Str ''No'' \<mapsto> 50],
          Str ''HR'' \<mapsto> [Str ''Yes'' \<mapsto> 50, Str ''No'' \<mapsto> 50],
          Str ''IT'' \<mapsto> [Str ''Yes'' \<mapsto> 0, Str ''No'' \<mapsto> 100]]"
proof -
  have ps: "crosstab_pairs attrition_example ''Department'' ''Attrition'' =
      [(Str ''Sales'', Str ''Yes''), (Str ''Sales'', Str ''No''),
       (Str ''HR'', Str ''Yes''), (Str ''HR'', Str ''No''), (Str ''IT'', Str ''No'')]"
    by (simp add: attrition_example_def crosstab_pairs_def frame_defs)
  have cols: "columns attrition_example = [''Department'', ''Attrition'']"
    by (simp add: attrition_example_def columns_def)
  show ?thesis
    unfolding crosstab_rate_def ps cols
    by (auto simp: normalized_def crosstab_count_def row_sum_def fun_eq_iff
        binary64_small_numbers)
qed

text \<open>
  C5. Whenever the rate table of a field against the attrition label is computed: the
  percentages of each category that the table lists, as float64 arithmetic gives them,
  sum to 100 within \<open>10\<^sup>-\<^sup>6\<close>; the table lists a category exactly when the view has a
  row of that category with an attrition label, so a category without rows is not
  listed at all; and on the five employees of Sales, Sales, HR, HR and IT with labels
  Yes, No, Yes, No and No the table is Sales: Yes 50, No 50; HR: Yes 50, No 50; IT:
  Yes 0, No 100.
\<close>

theorem crosstab_rate_row_normalized:
  assumes "crosstab_rate view field ''Attrition'' = Inr t"
  shows "(\<forall>x m. t x = Some m \<longrightarrow>
            finite (dom m) \<and> \<bar>(\<Sum>y\<in>dom m. the (m y)) - 100\<bar> \<le> 1 / 10 ^ 6)
       \<and> (\<forall>x. t x \<noteq> None \<longleftrightarrow>
            x \<noteq> Null \<and> (\<exists>r \<in> set (rows view). value_at view field r = x \<and>
                                value_at view ''Attrition'' r \<noteq> Null))
       \<and> crosstab_rate attrition_example ''Department'' ''Attrition'' =
           Inr [Str ''Sales'' \<mapsto> [Str ''Yes'' \<mapsto> 50, Str ''No'' \<mapsto> 50],
                Str ''HR'' \<mapsto> [Str ''Yes'' \<mapsto> 50, Str ''No'' \<mapsto> 50],
                Str ''IT'' \<mapsto> [Str ''Yes'' \<mapsto> 0, Str ''No'' \<mapsto> 100]]"
proof -
  from assms have t: "t = normalized (crosstab_pairs view field ''Attrition'')"
    by (auto simp: crosstab_rate_def split: if_splits)
  have "finite (dom m) \<and> \<bar>(\<Sum>y\<in>dom m. the (m y)) - 100\<bar> \<le> 1 / 10 ^ 6"
    if "t x = Some m" for x m
  proof -
    note total = normalized_row_total[OF that[unfolded t]]
    have "finite (dom m)"
      unfolding total(1) by simp
    moreover have "\<bar>(\<Sum>y\<in>dom m. the (m y)) - 100\<bar> \<le> 1 / 10 ^ 6"
      using total(2) rounding_within_tolerance by (rule order_trans)
    ultimately show ?thesis ..
  qed
  moreover have "t x \<noteq> None \<longleftrightarrow>
            x \<noteq> Null \<and> (\<exists>r \<in> set (rows view). value_at view field r = x \<and>
                                value_at view ''Attrition'' r \<noteq> Null)" for x
    unfolding t normalized_dom crosstab_pairs_fst ..
  ultimately show ?thesis
    using attrition_example_rates by blast
qed

text \<open>On the five employees: the table of the claim, whose row of IT sums to 100.\<close>

theorem crosstab_rate_row_normalized_witness:
  "crosstab_rate attrition_example ''Department'' ''Attrition'' =
           Inr [Str ''Sales'' \<mapsto> [Str ''Yes'' \<mapsto> 50, Str ''No'' \<mapsto> 50],
                Str ''HR'' \<mapsto> [Str ''Yes'' \<mapsto> 50, Str ''No'' \<mapsto> 50],
                Str ''IT'' \<mapsto> [Str ''Yes'' \<mapsto> 0, Str ''No'' \<mapsto> 100]]
   \<and> \<bar>(\<Sum>y\<in>dom [Str ''Yes'' \<mapsto> 0, Str ''No'' \<mapsto> (100::rat)].
           the ([Str ''Yes'' \<mapsto> 0, Str ''No'' \<mapsto> (100::rat)] y)) - 100\<bar> \<le> 1 / 10 ^ 6"
proof -
  let ?t = "[Str ''Sales'' \<mapsto> [Str ''Yes'' \<mapsto> 50, Str ''No'' \<mapsto> 50],
             Str ''HR'' \<mapsto> [Str ''Yes'' \<mapsto> 50, Str ''No'' \<mapsto> 50],
             Str ''IT'' \<mapsto> [Str ''Yes'' \<mapsto> 0, Str ''No'' \<mapsto> (100::rat)]]"
  have it: "?t (Str ''IT'') = Some [Str ''Yes'' \<mapsto> 0, Str ''No'' \<mapsto> 100]"
    by simp
  from crosstab_rate_row_normalized[OF attrition_example_rates] it
  have "\<bar>(\<Sum>y\<in>dom [Str ''Yes'' \<mapsto> 0, Str ''No'' \<mapsto> (100::rat)].
           the ([Str ''Yes'' \<mapsto> 0, Str ''No'' \<mapsto> (100::rat)] y)) - 100\<bar> \<le> 1 / 10 ^ 6"
    by blast
  then show ?thesis
    using attrition_example_rates by simp
qed

section \<open>The heatmap's guard and shape\<close>

text \<open>
  What lines 111-113 decide by themselves: the matrix is left out below two numeric
  columns, it is square over the numeric columns, and the observations of an entry are
  those of the mirrored entry with the two sides exchanged, so that a coefficient that
  does not depend on the order of the two sides gives a symmetric matrix.
\<close>

lemma heatmap_guard: "heatmap coef view = None \<longleftrightarrow> length (numeric_cols view) < 2"
  by (auto simp: heatmap_def)

lemma heatmap_square:
  assumes "heatmap coef view = Some m"
  shows "length m = length (numeric_cols view)"
    and "\<forall>row \<in> set m. length row = length (numeric_cols view)"
  using assms by (auto simp: heatmap_def corr_def split: if_splits)

lemma both_numbers_swap:
  "both_numbers (y, x) = map_option prod.swap (both_numbers (x, y))"
  by (cases x; cases y) simp_all

lemma map_filter_swap:
  "List.map_filter (\<lambda>r. both_numbers (g r, f r)) rs =
     map prod.swap (List.map_filter (\<lambda>r. both_numbers (f r, g r)) rs)"
proof (induction rs)
  case Nil
  show ?case by (simp add: List.map_filter_simps)
next
  case (Cons r rs)
  show ?case
    by (cases "both_numbers (f r, g r)")
       (simp_all add: List.map_filter_simps Cons.IH both_numbers_swap[of "g r" "f r"])
qed

lemma paired_swap: "paired view b a = map prod.swap (paired view a b)"
  unfolding paired_def by (rule map_filter_swap)

lemma corr_symmetric:
  assumes "\<And>ps. coef (map prod.swap ps) = coef ps"
      and "i < length cols" and "j < length cols"
  shows "corr coef view cols ! i ! j = corr coef view cols ! j ! i"
  using assms by (simp add: corr_def paired_swap[of view "cols ! j" "cols ! i"])

section \<open>The correlation matrix\<close>

lemma mean_of_swap: "mean_of f (map prod.swap ps) = mean_of (f \<circ> prod.swap) ps"
  by (simp add: mean_of_def comp_def)

lemma codeviation_swap:
  "codeviation f g (map prod.swap ps) = codeviation (f \<circ> prod.swap) (g \<circ> prod.swap) ps"
  by (simp add: codeviation_def mean_of_swap comp_def)

lemma codeviation_commute: "codeviation f g ps = codeviation g f ps"
  by (simp add: codeviation_def mult.commute)

lemma fst_swap: "fst \<circ> prod.swap = snd" and snd_swap: "snd \<circ> prod.swap = fst"
  by (simp_all add: fun_eq_iff)

lemma pearson_swap: "pearson (map prod.swap ps) = pearson ps"
  unfolding pearson_def codeviation_swap fst_swap snd_swap
  by (simp add: codeviation_commute[of snd fst] mult.commute)

lemma sum_list_squares_nonneg: "0 \<le> (\<Sum>x\<leftarrow>xs. g x * g x :: real)"
  by (induction xs) simp_all

lemma sum_list_squares_zero:
  "(\<Sum>x\<leftarrow>xs. g x * g x :: real) = 0 \<Longrightarrow> x \<in> set xs \<Longrightarrow> g x = 0"
proof (induction xs)
  case Nil
  then show ?case by simp
next
  case (Cons a xs)
  have "0 \<le> g a * g a" by simp
  with Cons.prems(1) sum_list_squares_nonneg[of g xs]
  have "g a * g a = 0" "(\<Sum>x\<leftarrow>xs. g x * g x) = 0"
    by (simp_all add: add_nonneg_eq_0_iff)
  with Cons.IH Cons.prems(2) show ?case
    by auto
qed

lemma codeviation_self_nonneg: "0 \<le> codeviation f f ps"
  unfolding codeviation_def by (rule sum_list_squares_nonneg)

lemma codeviation_self_zero:
  assumes "codeviation f f ps = 0" and "p \<in> set ps"
  shows "real_of_int (f p) = mean_of f ps"
  using sum_list_squares_zero[of "\<lambda>p. real_of_int (f p) - mean_of f ps" ps p] assms
  by (simp add: codeviation_def)

lemma codeviation_varies:
  assumes "p \<in> set ps" and "q \<in> set ps" and "f p \<noteq> f q"
  shows "0 < codeviation f f ps"
proof (rule ccontr)
  assume "\<not> 0 < codeviation f f ps"
  with codeviation_self_nonneg[of f ps] have z: "codeviation f f ps = 0"
    by simp
  from codeviation_self_zero[OF z assms(1)] codeviation_self_zero[OF z assms(2)]
  have "real_of_int (f p) = real_of_int (f q)"
    by simp
  with assms(3) show False
    by simp
qed

lemma pearson_self:
  assumes "x \<in> set xs" and "y \<in> set xs" and "x \<noteq> y"
  shows "pearson (map (\<lambda>x. (x, x)) xs) = Some 1"
proof -
  let ?ps = "map (\<lambda>x. (x, x)) xs"
  have same: "codeviation snd snd ?ps = codeviation fst fst ?ps"
    "codeviation fst snd ?ps = codeviation fst fst ?ps"
    by (simp_all add: codeviation_def mean_of_def comp_def)
  have "0 < codeviation fst fst ?ps"
    by (rule codeviation_varies[of "(x, x)" _ "(y, y)"]) (use assms in auto)
  then show ?thesis
    by (simp add: pearson_def same real_sqrt_mult_self)
qed

lemma pearson_no_observation: "pearson [] = None"
  by (simp add: pearson_def codeviation_def)

lemma paired_self: "paired view a a = map (\<lambda>x. (x, x)) (numbers (series view a))"
proof -
  have "List.map_filter (\<lambda>r. both_numbers (f r, f r)) rs = map (\<lambda>x. (x, x)) (numbers (map f rs))"
    for f :: "cell list \<Rightarrow> cell" and rs
  proof (induction rs)
    case Nil
    show ?case by (simp add: List.map_filter_simps)
  next
    case (Cons r rs)
    then show ?case
      by (cases "f r") (simp_all add: List.map_filter_simps)
  qed
  then show ?thesis
    by (simp add: paired_def series_def)
qed

text \<open>
  C6. The correlation matrix of a view, with the Pearson coefficient of the spec: it is
  left out (not applicable) exactly when the view has fewer than two numeric columns;
  where it is computed it is square over the numeric columns and symmetric, and its
  diagonal entry is 1 for every numeric column that holds two different numbers (a
  column of nonzero variance).
\<close>

theorem correlation_matrix_properties:
  "(heatmap pearson view = None \<longleftrightarrow> length (numeric_cols view) < 2)
   \<and> (\<forall>m. heatmap pearson view = Some m \<longrightarrow>
         length m = length (numeric_cols view)
         \<and> (\<forall>i < length (numeric_cols view). \<forall>j < length (numeric_cols view).
               m ! i ! j = m ! j ! i)
         \<and> (\<forall>i < length (numeric_cols view).
               (\<exists>x \<in> set (numbers (series view (numeric_cols view ! i))).
                \<exists>y \<in> set (numbers (series view (numeric_cols view ! i))). x \<noteq> y)
               \<longrightarrow> m ! i ! i = Some 1))"
proof (intro conjI allI impI)
  show "heatmap pearson view = None \<longleftrightarrow> length (numeric_cols view) < 2"
    by (rule heatmap_guard)
next
  fix m
  assume "heatmap pearson view = Some m"
  then have m: "m = corr pearson view (numeric_cols view)"
    by (simp add: heatmap_def split: if_splits)
  show "length m = length (numeric_cols view)"
    by (simp add: m corr_def)
  {
    fix i j
    assume "i < length (numeric_cols view)" "j < length (numeric_cols view)"
    then show "m ! i ! j = m ! j ! i"
      unfolding m by (intro corr_symmetric pearson_swap)
  }
  {
    fix i
    assume i: "i < length (numeric_cols view)"
      and "\<exists>x \<in> set (numbers (series view (numeric_cols view ! i))).
           \<exists>y \<in> set (numbers (series view (numeric_cols view ! i))). x \<noteq> y"
    then obtain x y where "x \<in> set (numbers (series view (numeric_cols view ! i)))"
      "y \<in> set (numbers (series view (numeric_cols view ! i)))" "x \<noteq> y"
      by blast
    then have "pearson (paired view (numeric_cols view ! i) (numeric_cols view ! i)) = Some 1"
      unfolding paired_self by (rule pearson_self)
    with i show "m ! i ! i = Some 1"
      by (simp add: m corr_def)
  }
qed

lemma payroll_heatmap:
  "heatmap pearson payroll_example =
     Some (corr pearson payroll_example [''Age'', ''MonthlyIncome''])"
  by (simp add: heatmap_def numeric_cols_def payroll_example_def)

text \<open>
  On the two employees aged 41 and 29: the matrix over age and income is computed, the
  ages differ, the entry of the age with itself is 1, and the two mixed entries are
  equal.
\<close>

theorem correlation_matrix_properties_witness:
  "heatmap pearson payroll_example =
     Some (corr pearson payroll_example [''Age'', ''MonthlyIncome''])
   \<and> numbers (series payroll_example ''Age'') = [41, 29]
   \<and> corr pearson payroll_example [''Age'', ''MonthlyIncome''] ! 0 ! 0 = Some 1
   \<and> corr pearson payroll_example [''Age'', ''MonthlyIncome''] ! 0 ! 1 =
     corr pearson payroll_example [''Age'', ''MonthlyIncome''] ! 1 ! 0"
proof -
  let ?m = "corr pearson payroll_example [''Age'', ''MonthlyIncome'']"
  have n: "numeric_cols payroll_example = [''Age'', ''MonthlyIncome'']"
    by (simp add: numeric_cols_def payroll_example_def)
  have ages: "numbers (series payroll_example ''Age'') = [41, 29]"
    by (simp add: payroll_example_def frame_defs)
  note t = correlation_matrix_properties[of payroll_example, THEN conjunct2, rule_format,
      OF payroll_heatmap, unfolded n]
  from t have sym: "\<forall>i<2. \<forall>j<2. ?m ! i ! j = ?m ! j ! i"
    by simp
  from t have "(\<exists>x \<in> set (numbers (series payroll_example ([''Age'', ''MonthlyIncome''] ! 0))).
                \<exists>y \<in> set (numbers (series payroll_example ([''Age'', ''MonthlyIncome''] ! 0))). x \<noteq> y)
               \<longrightarrow> ?m ! 0 ! 0 = Some 1"
    by simp
  then have diag: "?m ! 0 ! 0 = Some 1"
    by (auto simp: ages)
  from sym have "?m ! 0 ! 1 = ?m ! 1 ! 0"
    by simp
  with diag ages payroll_heatmap show ?thesis
    by simp
qed

section \<open>The empty view\<close>

lemma filter_isin_succeeds:
  assumes "sel = [] \<or> c \<in> set (columns d)"
  shows "\<exists>d'. filter_isin c sel d = Inr d'"
  using assms by (auto simp: filter_isin_def)

lemma series_subset:
  assumes "schema d' = schema d" and "set (rows d') \<subseteq> set (rows d)"
  shows "set (series d' c) \<subseteq> set (series d c)"
proof -
  have "value_at d' c r = value_at d c r" for r
    by (rule value_at_schema[OF assms(1)])
  with assms(2) show ?thesis
    by (auto simp: series_def)
qed

lemma apply_filters_succeeds:
  assumes age: "''Age'' \<in> set (columns df)"
      and numeric: "\<not> list_ex is_text (series df ''Age'')"
      and dep: "sd = [] \<or> ''Department'' \<in> set (columns df)"
      and gen: "sg = [] \<or> ''Gender'' \<in> set (columns df)"
  shows "\<exists>view. apply_filters df sd sg ar = Inr view"
proof -
  from filter_isin_succeeds[OF dep] obtain d1 where
    1: "filter_isin ''Department'' sd df = Inr d1"
    by blast
  have s1: "schema d1 = schema df" and r1: "set (rows d1) \<subseteq> set (rows df)"
    using filter_isin_Inr[OF 1] by auto
  from gen s1 have "sg = [] \<or> ''Gender'' \<in> set (columns d1)"
    by (simp add: columns_def)
  from filter_isin_succeeds[OF this] obtain d2 where
    2: "filter_isin ''Gender'' sg d1 = Inr d2"
    by blast
  have s2: "schema d2 = schema df" and r2: "set (rows d2) \<subseteq> set (rows df)"
    using filter_isin_Inr[OF 2] s1 r1 by auto
  have "set (series d2 ''Age'') \<subseteq> set (series df ''Age'')"
    by (rule series_subset[OF s2 r2])
  with numeric have "\<not> list_ex is_text (series d2 ''Age'')"
    by (auto simp: list_ex_iff)
  moreover from age s2 have "''Age'' \<in> set (columns d2)"
    by (simp add: columns_def)
  ultimately have "\<exists>view. filter_age ar d2 = Inr view"
    by (simp add: filter_age_def)
  with 1 2 show ?thesis
    by (simp add: apply_filters_def)
qed

lemma crosstab_rate_no_rows:
  assumes "a \<in> set (columns df)" and "b \<in> set (columns df)"
  shows "crosstab_rate (df\<lparr>rows := []\<rparr>) a b = Inr Map.empty"
  using assms by (simp add: crosstab_rate_def crosstab_pairs_def normalized_def columns_def)

lemma corr_no_rows:
  "corr coef (df\<lparr>rows := []\<rparr>) cols =
     replicate (length cols) (replicate (length cols) (coef []))"
  by (simp add: corr_def paired_def List.map_filter_simps map_replicate_const)

text \<open>Lines 44-49 with a specification that excludes every row, and the tables and the
  matrix of the view without rows.\<close>

lemma excluding_every_row:
  assumes age: "''Age'' \<in> set (columns df)"
      and numeric: "\<not> list_ex is_text (series df ''Age'')"
      and attrition: "''Attrition'' \<in> set (columns df)"
      and dep: "sd = [] \<or> ''Department'' \<in> set (columns df)"
      and gen: "sg = [] \<or> ''Gender'' \<in> set (columns df)"
      and excluded: "\<forall>r \<in> set (rows df).
             \<not> ((sd = [] \<or> value_at df ''Department'' r \<in> set sd) \<and>
                (sg = [] \<or> value_at df ''Gender'' r \<in> set sg) \<and>
                in_range ar (value_at df ''Age'' r))"
  shows "apply_filters df sd sg ar = Inr (df\<lparr>rows := []\<rparr>)
       \<and> table1 (df\<lparr>rows := []\<rparr>) =
           (if ''Department'' \<in> set (columns df) then Some (Inr Map.empty) else None)
       \<and> table2 (df\<lparr>rows := []\<rparr>) =
           (if ''Gender'' \<in> set (columns df) then Some (Inr Map.empty) else None)
       \<and> heatmap coef (df\<lparr>rows := []\<rparr>) =
           (if length (numeric_cols df) > 1
            then Some (replicate (length (numeric_cols df))
                         (replicate (length (numeric_cols df)) (coef [])))
            else None)"
proof -
  from apply_filters_succeeds[OF age numeric dep gen] obtain view where
    v: "apply_filters df sd sg ar = Inr view"
    by blast
  have "rows view = []"
    unfolding apply_filters_Inr(2)[OF v] using excluded by (simp add: filter_empty_conv)
  with apply_filters_Inr(1)[OF v] have "view = df\<lparr>rows := []\<rparr>"
    by simp
  with v have 1: "apply_filters df sd sg ar = Inr (df\<lparr>rows := []\<rparr>)"
    by simp
  have c: "columns (df\<lparr>rows := []\<rparr>) = columns df"
    by (simp add: columns_def)
  have 2: "table1 (df\<lparr>rows := []\<rparr>) =
           (if ''Department'' \<in> set (columns df) then Some (Inr Map.empty) else None)"
    using attrition by (simp add: table1_def c crosstab_rate_no_rows)
  have 3: "table2 (df\<lparr>rows := []\<rparr>) =
           (if ''Gender'' \<in> set (columns df) then Some (Inr Map.empty) else None)"
    using attrition by (simp add: table2_def c crosstab_rate_no_rows)
  have n: "numeric_cols (df\<lparr>rows := []\<rparr>) = numeric_cols df"
    by (simp add: numeric_cols_def)
  have 4: "heatmap coef (df\<lparr>rows := []\<rparr>) =
           (if length (numeric_cols df) > 1
            then Some (replicate (length (numeric_cols df))
                         (replicate (length (numeric_cols df)) (coef [])))
            else None)"
    by (simp add: heatmap_def n corr_no_rows)
  from 1 2 3 4 show ?thesis
    by blast
qed

lemma age_range_Inr:
  assumes "age_range df choice = Inr ar"
  shows "''Age'' \<in> set (columns df)" and "\<not> list_ex is_text (series df ''Age'')"
  using assms by (auto simp: age_range_def age_bounds_def split: if_splits sum.splits)

lemma selected_empty_or_column: "selected c df choice = [] \<or> c \<in> set (columns df)"
  by (simp add: selected_def)

text \<open>
  C8, as the code has it. Where the age column holds no text, the sidebar has given an
  age range and the dataset has the attrition label, a specification that excludes every
  row does not fail: the view has the same columns and no row. On that view each rate table is left out (its field
  is not a column) or is the empty table. The correlation matrix is left out when the
  view has fewer than two numeric columns; otherwise it is the full matrix over the
  numeric columns, each entry undefined (NaN), not an empty result. Nothing raises.
\<close>

theorem empty_view_is_valid:
  assumes sidebar: "age_range df (age_choice ui) = Inr ar"
      and numeric: "\<not> list_ex is_text (series df ''Age'')"
      and attrition: "''Attrition'' \<in> set (columns df)"
      and excluded: "\<forall>r \<in> set (rows df).
             \<not> ((selected_departments df (department_choice ui) = [] \<or>
                 value_at df ''Department'' r \<in> set (selected_departments df (department_choice ui))) \<and>
                (selected_genders df (gender_choice ui) = [] \<or>
                 value_at df ''Gender'' r \<in> set (selected_genders df (gender_choice ui))) \<and>
                in_range ar (value_at df ''Age'' r))"
  shows "filtered_df df ui = Inr (df\<lparr>rows := []\<rparr>)
       \<and> table1 (df\<lparr>rows := []\<rparr>) =
           (if ''Department'' \<in> set (columns df) then Some (Inr Map.empty) else None)
       \<and> table2 (df\<lparr>rows := []\<rparr>) =
           (if ''Gender'' \<in> set (columns df) then Some (Inr Map.empty) else None)
       \<and> heatmap pearson (df\<lparr>rows := []\<rparr>) =
           (if length (numeric_cols df) > 1
            then Some (replicate (length (numeric_cols df))
                         (replicate (length (numeric_cols df)) None))
            else None)"
proof -
  have dep: "selected_departments df (department_choice ui) = [] \<or> ''Department'' \<in> set (columns df)"
    and gen: "selected_genders df (gender_choice ui) = [] \<or> ''Gender'' \<in> set (columns df)"
    by (simp_all add: selected_departments_def selected_genders_def selected_empty_or_column)
  note e = excluding_every_row[OF age_range_Inr(1)[OF sidebar] numeric attrition dep gen
      excluded, of pearson]
  have "filtered_df df ui = apply_filters df (selected_departments df (department_choice ui))
          (selected_genders df (gender_choice ui)) ar"
    by (simp add: filtered_df_def sidebar)
  with e show ?thesis
    by (simp add: pearson_no_observation)
qed

text \<open>
  Two employees of Sales and HR, with the department IT picked and the age slider
  untouched at 29 to 41: no row is left, the department table is empty, there is no
  gender table, and the four entries of the matrix are undefined.
\<close>

theorem empty_view_is_valid_witness:
  "age_range payroll_example (age_choice (untouched\<lparr>department_choice := Some [Str ''IT'']\<rparr>)) =
     Inr (29, 41)
   \<and> series payroll_example ''Age'' = [Num 41, Num 29]
   \<and> rows payroll_example \<noteq> []
   \<and> filtered_df payroll_example (untouched\<lparr>department_choice := Some [Str ''IT'']\<rparr>) =
       Inr (payroll_example\<lparr>rows := []\<rparr>)
   \<and> table1 (payroll_example\<lparr>rows := []\<rparr>) = Some (Inr Map.empty)
   \<and> table2 (payroll_example\<lparr>rows := []\<rparr>) = None
   \<and> heatmap pearson (payroll_example\<lparr>rows := []\<rparr>) = Some [[None, None], [None, None]]"
proof -
  let ?ui = "untouched\<lparr>department_choice := Some [Str ''IT'']\<rparr>"
  have sidebar: "age_range payroll_example (age_choice ?ui) = Inr (29, 41)"
    by (simp add: payroll_example_def untouched_def frame_defs sidebar_defs)
  have ages: "series payroll_example ''Age'' = [Num 41, Num 29]"
    by (simp add: payroll_example_def frame_defs)
  have numeric: "\<not> list_ex is_text (series payroll_example ''Age'')"
    by (simp add: ages is_text_def)
  have attrition: "''Attrition'' \<in> set (columns payroll_example)"
    by (simp add: payroll_example_def columns_def)
  have sd: "selected_departments payroll_example (department_choice ?ui) = [Str ''IT'']"
    by (simp add: payroll_example_def untouched_def frame_defs sidebar_defs)
  have excluded: "\<forall>r \<in> set (rows payroll_example).
             \<not> ((selected_departments payroll_example (department_choice ?ui) = [] \<or>
                 value_at payroll_example ''Department'' r
                   \<in> set (selected_departments payroll_example (department_choice ?ui))) \<and>
                (selected_genders payroll_example (gender_choice ?ui) = [] \<or>
                 value_at payroll_example ''Gender'' r
                   \<in> set (selected_genders payroll_example (gender_choice ?ui))) \<and>
                in_range (29, 41) (value_at payroll_example ''Age'' r))"
    unfolding sd by (simp add: payroll_example_def frame_defs)
  have cols: "''Department'' \<in> set (columns payroll_example)"
      "''Gender'' \<notin> set (columns payroll_example)"
      "numeric_cols payroll_example = [''Age'', ''MonthlyIncome'']"
      "rows payroll_example \<noteq> []"
    by (simp_all add: payroll_example_def columns_def numeric_cols_def)
  from empty_view_is_valid[OF sidebar numeric attrition excluded] cols sidebar ages
  show ?thesis
    by (simp add: numeral_2_eq_2)
qed

text \<open>
  C8 as stated fails in two places. On two employees whose age is missing the filters
  alone return the view without rows, but the page never gets there: line 40 raises
  ValueError on a column without a number. And on a view without rows that has two
  numeric columns the correlation is neither left out nor empty: it is a matrix of two
  rows and two columns.
\<close>

theorem empty_view_fails_or_is_a_matrix:
  "filtered_df no_ages_example untouched = Inl ValueError
   \<and> apply_filters no_ages_example [] [] (18, 60) = Inr (no_ages_example\<lparr>rows := []\<rparr>)
   \<and> heatmap pearson (payroll_example\<lparr>rows := []\<rparr>) = Some [[None, None], [None, None]]"
proof -
  have "filtered_df no_ages_example untouched = Inl ValueError"
    by (simp add: no_ages_example_def untouched_def frame_defs sidebar_defs filter_defs)
  moreover have "apply_filters no_ages_example [] [] (18, 60) =
      Inr (no_ages_example\<lparr>rows := []\<rparr>)"
    by (simp add: no_ages_example_def frame_defs filter_defs)
  moreover have "heatmap pearson (payroll_example\<lparr>rows := []\<rparr>) =
      Some [[None, None], [None, None]]"
  proof -
    have "numeric_cols (payroll_example\<lparr>rows := []\<rparr>) = [''Age'', ''MonthlyIncome'']"
      by (simp add: numeric_cols_def payroll_example_def)
    then show ?thesis
      by (simp add: heatmap_def corr_no_rows pearson_no_observation numeral_2_eq_2)
  qed
  ultimately show ?thesis
    by simp
qed

end
